theory Spec2Isabelle
  imports Complex_Main "HOL-Library.Word"
begin

section \<open>Data model\<close>

text \<open>
  The wallet talks to an Electrum server and to the bitcoinjs, bip32 and noble libraries.
  None of them is part of the repository, so they enter the model as records of
  functions: the Electrum client answers each request with \<open>Some\<close> result or with
  \<open>None\<close> when the call rejects, and the library records carry the script codec, the
  size measurement and the cryptographic primitives. Amounts are satoshis, kept as
  \<open>int\<close>; a fee rate is a \<open>rat\<close>, as the source's BigNumber is exact.
\<close>

type_synonym txid = string
type_synonym script = string
type_synonym byte = "8 word"
type_synonym bytes = "byte list"

text \<open>
  What the source throws: \<open>NetworkFailure\<close> is a rejected call of the Electrum client,
  \<open>TypeError\<close> the reading of a property of \<open>null\<close> or \<open>undefined\<close> (and
  \<open>sodium_memzero\<close> or \<open>payments.p2wpkh\<close> refusing its argument), \<open>InvalidAddress\<close>
  an address the codec does not decode, \<open>NoUnspentOutputs\<close>, \<open>BelowDustLimit\<close> and
  \<open>InsufficientBalance\<close> the three errors the accounts raise themselves,
  \<open>SigningFailure\<close> a throw of \<open>signInputHD\<close> or \<open>finalizeAllInputs\<close>, \<open>InvalidPath\<close>
  one of \<open>derivePath\<close>, \<open>MalformedSignature\<close> one of the library's \<open>verify\<close>, and
  \<open>OutputsExceedInputs\<close> the refusal of \<open>extractTransaction\<close> to extract a transaction
  that spends more than its inputs hold.
\<close>

datatype error =
    NetworkFailure
  | TypeError
  | InvalidAddress
  | NoUnspentOutputs
  | BelowDustLimit
  | InsufficientBalance
  | SigningFailure
  | InvalidPath
  | MalformedSignature
  | OutputsExceedInputs

record txout =
  out_value :: int
  out_script :: script

text \<open>\<open>in_hash\<close> is the previous transaction's id, that is the source's
  \<open>Buffer.from(input.hash).reverse().toString('hex')\<close>.\<close>

record txin =
  in_hash :: txid
  in_index :: nat

record transaction =
  ins :: "txin list"
  outs :: "txout list"

record history_item =
  h_tx_hash :: txid
  h_height :: int

record utxo =
  tx_hash :: txid
  tx_pos :: nat
  utxo_value :: int

text \<open>The Electrum client (\<open>electrum-client.js\<close>), by the methods the accounts call.\<close>

record electrum =
  ec_getHistory :: "string \<Rightarrow> history_item list option"
  ec_getTransaction :: "txid \<Rightarrow> transaction option"
  ec_getUnspent :: "string \<Rightarrow> utxo list option"
  ec_getFeeEstimateInSatsPerVb :: "rat option"
  ec_broadcastTransaction :: "string \<Rightarrow> string option"

record transfer =
  t_txid :: txid
  t_height :: int
  t_value :: int
  t_vout :: nat
  t_direction :: string
  t_recipient :: "string option"
  t_fee :: "int option"
  t_address :: string

record transfer_options =
  opt_direction :: "string option"
  opt_limit :: "int option"
  opt_skip :: "int option"

definition DUST_LIMIT :: int where
  "DUST_LIMIT = 546"

section \<open>Transfer history: getTransfers of the read-only account\<close>

text \<open>\<open>history.slice(skip)\<close>: a negative start counts from the end of the array.\<close>

definition slice_from :: "int \<Rightarrow> 'a list \<Rightarrow> 'a list" where
  "slice_from k xs =
     (if k < 0 then drop (nat (int (length xs) + k)) xs else drop (nat k) xs)"

type_synonym txCache = "txid \<rightharpoonup> transaction"

text \<open>\<open>getTx\<close>: the per-call cache in front of the client's \<open>getTransaction\<close>; a
  rejected fetch stores nothing.\<close>

definition getTx :: "electrum \<Rightarrow> txCache \<Rightarrow> txid \<Rightarrow> transaction option \<times> txCache" where
  "getTx ec cache i =
     (case cache i of
        Some t \<Rightarrow> (Some t, cache)
      | None \<Rightarrow>
          (case ec_getTransaction ec i of
             None \<Rightarrow> (None, cache)
           | Some t \<Rightarrow> (Some t, cache(i \<mapsto> t))))"

text \<open>\<open>tx.outs[n]\<close>, which is \<open>undefined\<close> out of range.\<close>

definition outAt :: "transaction \<Rightarrow> nat \<Rightarrow> txout option" where
  "outAt t n = (if n < length (outs t) then Some (outs t ! n) else None)"

text \<open>The \<open>Promise.all\<close> over the inputs, one input after the other: every lookup that
  throws, and every index without an output, yields \<open>null\<close>.\<close>

fun prevOuts :: "electrum \<Rightarrow> txCache \<Rightarrow> txin list \<Rightarrow> txout option list \<times> txCache" where
  "prevOuts ec cache [] = ([], cache)"
| "prevOuts ec cache (i # rest) =
     (case getTx ec cache (in_hash i) of
        (None, cache1) \<Rightarrow>
          (case prevOuts ec cache1 rest of (rs, cache2) \<Rightarrow> (None # rs, cache2))
      | (Some prevTx, cache1) \<Rightarrow>
          (case prevOuts ec cache1 rest of
             (rs, cache2) \<Rightarrow> (outAt prevTx (in_index i) # rs, cache2)))"

text \<open>The loop over \<open>prevOuts\<close> that accumulates \<open>totalInput\<close> and \<open>isOutgoing\<close>.\<close>

fun scanPrevOuts :: "script \<Rightarrow> txout option list \<Rightarrow> int \<times> bool \<Rightarrow> int \<times> bool" where
  "scanPrevOuts myScript [] acc = acc"
| "scanPrevOuts myScript (None # rest) acc = scanPrevOuts myScript rest acc"
| "scanPrevOuts myScript (Some p # rest) (totalInput, isOutgoing) =
     scanPrevOuts myScript rest
       (totalInput + out_value p, isOutgoing \<or> out_script p = myScript)"

text \<open>The chain of \<open>if\<close>s that sets \<open>directionType\<close>; \<open>None\<close> is the final
  \<open>else continue\<close>.\<close>

definition directionType :: "bool \<Rightarrow> bool \<Rightarrow> string option" where
  "directionType toSelf isOutgoing =
     (if toSelf \<and> \<not> isOutgoing then Some ''incoming''
      else if \<not> toSelf \<and> isOutgoing then Some ''outgoing''
      else if toSelf \<and> isOutgoing then Some ''change''
      else None)"

text \<open>The inner loop over \<open>tx.outs\<close>, from index \<open>vout\<close> on; \<open>fromOut\<close> is
  \<open>btcAddress.fromOutputScript\<close> inside its \<open>try\<close>.\<close>

fun emitOuts ::
  "(script \<Rightarrow> string option) \<Rightarrow> string \<Rightarrow> script \<Rightarrow> string \<Rightarrow> int \<Rightarrow> history_item \<Rightarrow>
   bool \<Rightarrow> int option \<Rightarrow> nat \<Rightarrow> txout list \<Rightarrow> transfer list \<Rightarrow> transfer list" where
  "emitOuts fromOut address myScript direction limit item isOutgoing fee vout [] transfers =
     transfers"
| "emitOuts fromOut address myScript direction limit item isOutgoing fee vout (out # rest)
     transfers =
     (case directionType (out_script out = myScript) isOutgoing of
        None \<Rightarrow>
          emitOuts fromOut address myScript direction limit item isOutgoing fee (Suc vout)
            rest transfers
      | Some d \<Rightarrow>
          if d = ''change'' then
            emitOuts fromOut address myScript direction limit item isOutgoing fee (Suc vout)
              rest transfers
          else if direction \<noteq> ''all'' \<and> direction \<noteq> d then
            emitOuts fromOut address myScript direction limit item isOutgoing fee (Suc vout)
              rest transfers
          else if int (length transfers) \<ge> limit then transfers
          else
            emitOuts fromOut address myScript direction limit item isOutgoing fee (Suc vout)
              rest
              (transfers @
                [\<lparr> t_txid = h_tx_hash item, t_height = h_height item,
                   t_value = out_value out, t_vout = vout, t_direction = d,
                   t_recipient = fromOut (out_script out), t_fee = fee,
                   t_address = address \<rparr>]))"

text \<open>\<open>totalOutput\<close> and \<open>fee\<close> of one history transaction.\<close>

definition feeOf :: "int \<Rightarrow> transaction \<Rightarrow> int option" where
  "feeOf totalInput t =
     (let totalOutput = foldl (\<lambda>sum o'. sum + out_value o') 0 (outs t)
      in if totalInput > 0 then Some (totalInput - totalOutput) else None)"

text \<open>The outer loop over \<open>history.slice(skip)\<close>.\<close>

fun historyLoop ::
  "electrum \<Rightarrow> (script \<Rightarrow> string option) \<Rightarrow> string \<Rightarrow> script \<Rightarrow> string \<Rightarrow> int \<Rightarrow>
   txCache \<Rightarrow> history_item list \<Rightarrow> transfer list \<Rightarrow> transfer list" where
  "historyLoop ec fromOut address myScript direction limit cache [] transfers = transfers"
| "historyLoop ec fromOut address myScript direction limit cache (item # rest) transfers =
     (if int (length transfers) \<ge> limit then transfers
      else
        (case getTx ec cache (h_tx_hash item) of
           (None, cache1) \<Rightarrow>
             historyLoop ec fromOut address myScript direction limit cache1 rest transfers
         | (Some t, cache1) \<Rightarrow>
             (case prevOuts ec cache1 (ins t) of
                (pouts, cache2) \<Rightarrow>
                  (case scanPrevOuts myScript pouts (0, False) of
                     (totalInput, isOutgoing) \<Rightarrow>
                       historyLoop ec fromOut address myScript direction limit cache2 rest
                         (emitOuts fromOut address myScript direction limit item isOutgoing
                            (feeOf totalInput t) 0 (outs t) transfers)))))"

text \<open>The script codec of bitcoinjs-lib (\<open>address.toOutputScript\<close> and
  \<open>address.fromOutputScript\<close>) for the configured network; \<open>None\<close> when it throws.\<close>

record codec =
  toOutputScript :: "string \<Rightarrow> script option"
  fromOutputScript :: "script \<Rightarrow> string option"

definition directionOf :: "transfer_options \<Rightarrow> string" where
  "directionOf options = (case opt_direction options of None \<Rightarrow> ''all'' | Some d \<Rightarrow> d)"

definition limitOf :: "transfer_options \<Rightarrow> int" where
  "limitOf options = (case opt_limit options of None \<Rightarrow> 10 | Some l \<Rightarrow> l)"

definition skipOf :: "transfer_options \<Rightarrow> int" where
  "skipOf options = (case opt_skip options of None \<Rightarrow> 0 | Some s \<Rightarrow> s)"

definition getTransfers ::
  "electrum \<Rightarrow> codec \<Rightarrow> string \<Rightarrow> transfer_options \<Rightarrow> error + transfer list" where
  "getTransfers ec net address options =
     (case ec_getHistory ec address of
        None \<Rightarrow> Inl NetworkFailure
      | Some history \<Rightarrow>
          (case toOutputScript net address of
             None \<Rightarrow> Inl InvalidAddress
           | Some myScript \<Rightarrow>
               Inr (historyLoop ec (fromOutputScript net) address myScript
                      (directionOf options) (limitOf options) Map.empty
                      (slice_from (skipOf options) history) [])))"


section \<open>The account: key material, signing, disposal\<close>

text \<open>
  Buffers are mutable and shared (\<open>_keyPair.privateKey\<close> is the very buffer
  \<open>_privateKeyBuffer\<close> points to), so they live in an explicit store: a reference is an
  index into the list of buffers, and a field set to \<open>null\<close> is \<open>None\<close>.
\<close>

type_synonym ref = nat
type_synonym store = "bytes list"

definition alloc :: "store \<Rightarrow> bytes \<Rightarrow> ref \<times> store" where
  "alloc s b = (length s, s @ [b])"

text \<open>The primitives of \<open>@noble/hashes\<close>, \<open>bip32\<close>, the ECC library, \<open>Buffer\<close> and
  \<open>payments.p2wpkh\<close>. \<open>derivePath\<close> maps a node (private key, chain code) and a path to
  the child node, \<open>None\<close> when the path is rejected; \<open>ecdsaVerify\<close> takes the hash, the
  public key and the signature, \<open>None\<close> when the signature is not well formed.\<close>

record cryptolib =
  hmac_sha512 :: "bytes \<Rightarrow> bytes \<Rightarrow> bytes"
  sha256 :: "bytes \<Rightarrow> bytes"
  isPrivate :: "bytes \<Rightarrow> bool"
  pointFromScalar :: "bytes \<Rightarrow> bytes"
  derivePath :: "bytes \<times> bytes \<Rightarrow> string \<Rightarrow> (bytes \<times> bytes) option"
  fingerprint :: "bytes \<Rightarrow> bytes"
  ecdsaSign :: "bytes \<Rightarrow> bytes \<Rightarrow> bytes"
  ecdsaVerify :: "bytes \<Rightarrow> bytes \<Rightarrow> bytes \<Rightarrow> bool option"
  p2wpkhAddress :: "bytes \<Rightarrow> string"
  toBase64 :: "bytes \<Rightarrow> string"
  fromBase64 :: "string \<Rightarrow> bytes"

text \<open>A BIP-32 node as the account uses it: \<open>__D\<close> (private key), \<open>__Q\<close> (public key,
  computed when the node's fingerprint is first needed, which \<open>derivePath\<close> does) and the
  chain code.\<close>

record bip32_node =
  node_D :: ref
  node_Q :: ref
  node_chainCode :: ref

record keyPair =
  publicKey :: ref
  privateKey :: ref

record account =
  a_electrumConnected :: bool
  a_masterKeyAndChainCodeBuffer :: "ref option"
  a_privateKeyBuffer :: "ref option"
  a_chainCodeBuffer :: "ref option"
  a_bip32 :: "bip32_node option"
  a_path :: string
  a_address :: string
  a_keyPair :: keyPair

definition fromUtf8 :: "string \<Rightarrow> bytes" where
  "fromUtf8 s = map (\<lambda>c. of_nat (of_char c)) s"

definition BIP_84_BTC_DERIVATION_PATH_PREFIX :: string where
  "BIP_84_BTC_DERIVATION_PATH_PREFIX = ''m/84'/0'' @ [CHR 0x27]"

text \<open>The constructor. \<open>slice\<close> and \<open>Buffer.from\<close> copy, so the node's key and chain
  code are buffers of their own; \<open>fromPrivateKey\<close> throws on a key out of range.\<close>

definition WalletAccountBtc ::
  "cryptolib \<Rightarrow> store \<Rightarrow> bytes \<Rightarrow> string \<Rightarrow> error + (store \<times> account)" where
  "WalletAccountBtc c s0 seedBuffer path =
     (let mk = hmac_sha512 c (fromUtf8 ''Bitcoin seed'') seedBuffer;
          (rMk, s1) = alloc s0 mk;
          (rPk, s2) = alloc s1 (take 32 mk);
          (rCc, s3) = alloc s2 (drop 32 mk)
      in if \<not> isPrivate c (take 32 mk) then Inl TypeError
         else
           let (rD, s4) = alloc s3 (take 32 mk);
               (rNc, s5) = alloc s4 (drop 32 mk);
               fullPath = BIP_84_BTC_DERIVATION_PATH_PREFIX @ ''/'' @ path
           in case derivePath c (take 32 mk, drop 32 mk) fullPath of
                None \<Rightarrow> Inl InvalidPath
              | Some (childKey, childChainCode) \<Rightarrow>
                  let (rQ, s6) = alloc s5 (pointFromScalar c (take 32 mk));
                      (rPub, s7) = alloc s6 (pointFromScalar c childKey)
                  in Inr (s7,
                       \<lparr> a_electrumConnected = True,
                         a_masterKeyAndChainCodeBuffer = Some rMk,
                         a_privateKeyBuffer = Some rPk,
                         a_chainCodeBuffer = Some rCc,
                         a_bip32 = Some \<lparr> node_D = rD, node_Q = rQ, node_chainCode = rNc \<rparr>,
                         a_path = fullPath,
                         a_address = p2wpkhAddress c (pointFromScalar c childKey),
                         a_keyPair = \<lparr> publicKey = rPub, privateKey = rPk \<rparr> \<rparr>))"

definition getAddress :: "account \<Rightarrow> error + string" where
  "getAddress a = Inr (a_address a)"

text \<open>\<open>sign\<close> and \<open>verify\<close> go through \<open>this._bip32\<close>; reading a property of \<open>null\<close>
  is a TypeError.\<close>

definition sign :: "cryptolib \<Rightarrow> store \<Rightarrow> account \<Rightarrow> string \<Rightarrow> error + string" where
  "sign c s a message =
     (let messageHash = sha256 c (fromUtf8 message)
      in case a_bip32 a of
           None \<Rightarrow> Inl TypeError
         | Some n \<Rightarrow> Inr (toBase64 c (ecdsaSign c (s ! node_D n) messageHash)))"

definition verify :: "cryptolib \<Rightarrow> store \<Rightarrow> account \<Rightarrow> string \<Rightarrow> string \<Rightarrow> error + bool" where
  "verify c s a message signature =
     (let messageHash = sha256 c (fromUtf8 message);
          signatureBuffer = fromBase64 c signature
      in case a_bip32 a of
           None \<Rightarrow> Inl TypeError
         | Some n \<Rightarrow>
             (case ecdsaVerify c messageHash (s ! node_Q n) signatureBuffer of
                None \<Rightarrow> Inl MalformedSignature
              | Some b \<Rightarrow> Inr b))"

text \<open>\<open>sodium_memzero\<close> overwrites the buffer in place.\<close>

definition memzero :: "store \<Rightarrow> ref \<Rightarrow> store" where
  "memzero s r = s[r := replicate (length (s ! r)) 0]"

text \<open>\<open>dispose\<close>. A call that throws keeps the writes made before the throw, so the
  result is the error, if any, with the store and the account as the call leaves them.
  \<open>sodium_memzero(null)\<close> throws, and so does \<open>this._bip32.__Q\<close> on a \<open>null\<close> node.\<close>

definition dispose :: "store \<Rightarrow> account \<Rightarrow> error option \<times> store \<times> account" where
  "dispose s a =
     (case a_privateKeyBuffer a of
        None \<Rightarrow> (Some TypeError, s, a)
      | Some r1 \<Rightarrow>
          let s1 = memzero s r1
          in case a_chainCodeBuffer a of
               None \<Rightarrow> (Some TypeError, s1, a)
             | Some r2 \<Rightarrow>
                 let s2 = memzero s1 r2
                 in case a_masterKeyAndChainCodeBuffer a of
                      None \<Rightarrow> (Some TypeError, s2, a)
                    | Some r3 \<Rightarrow>
                        let s3 = memzero s2 r3;
                            s4 = memzero s3 (privateKey (a_keyPair a))
                        in case a_bip32 a of
                             None \<Rightarrow> (Some TypeError, s4, a)
                           | Some n \<Rightarrow>
                               let s5 = memzero s4 (node_Q n);
                                   s6 = memzero s5 (node_D n)
                               in (None, s6,
                                   a\<lparr> a_bip32 := None,
                                      a_privateKeyBuffer := None,
                                      a_chainCodeBuffer := None,
                                      a_masterKeyAndChainCodeBuffer := None,
                                      a_electrumConnected := False \<rparr>))"

section \<open>The transaction builder of the account\<close>

text \<open>
  The methods of \<open>src/wallet-account-btc.js\<close>, without the leading underscore of the
  protected ones: \<open>getUtxos\<close> is \<open>_getUtxos\<close>, \<open>getTransaction\<close> is
  \<open>_getTransaction\<close> (the client's method of that name is \<open>ec_getTransaction\<close>),
  \<open>getRawTransaction\<close> is \<open>_getRawTransaction\<close> and \<open>createPsbt\<close> its inner function,
  split into the inputs, the outputs and the signing.
\<close>

record collected = utxo +
  vout :: txout

record psbt_input =
  pi_hash :: txid
  pi_index :: nat
  pi_witnessUtxo :: txout
  pi_bip32Derivation :: "(bytes \<times> string \<times> bytes) list"
  pi_finalScriptWitness :: "bytes option"

record psbt =
  p_inputs :: "psbt_input list"
  p_outputs :: "txout list"

text \<open>The value a PSBT takes in (the values of its \<open>witnessUtxo\<close>s) and the value it
  pays out.\<close>

definition inputSum :: "psbt \<Rightarrow> int" where
  "inputSum p = sum_list (map (\<lambda>i. out_value (pi_witnessUtxo i)) (p_inputs p))"

definition outputSum :: "psbt \<Rightarrow> int" where
  "outputSum p = sum_list (map out_value (p_outputs p))"

text \<open>bitcoinjs-lib: the codec, HD signing of one input of a PSBT by a node (private key,
  chain code), giving the input's final witness or \<open>None\<close> when it throws, and the
  measurements of the extracted transaction.\<close>

record bitcoinjs = codec +
  signInputHD :: "bytes \<Rightarrow> bytes \<Rightarrow> psbt \<Rightarrow> nat \<Rightarrow> bytes option"
  virtualSize :: "psbt \<Rightarrow> nat"
  getId :: "psbt \<Rightarrow> string"
  toHex :: "psbt \<Rightarrow> string"

record raw_transaction =
  rt_txid :: string
  rt_hex :: string
  rt_fee :: int

record transaction_result =
  tr_hash :: string
  tr_fee :: int

text \<open>The loop of \<open>_getUtxos\<close>: it stops as soon as the collected value reaches
  \<open>amount\<close>.\<close>

fun collectUtxos ::
  "electrum \<Rightarrow> int \<Rightarrow> utxo list \<Rightarrow> collected list \<Rightarrow> int \<Rightarrow> error + collected list" where
  "collectUtxos ec amount [] collected totalCollected = Inr collected"
| "collectUtxos ec amount (u # rest) collected totalCollected =
     (case ec_getTransaction ec (tx_hash u) of
        None \<Rightarrow> Inl NetworkFailure
      | Some t \<Rightarrow>
          (case outAt t (tx_pos u) of
             None \<Rightarrow> Inl TypeError
           | Some v \<Rightarrow>
               let collected1 = collected @ [utxo.extend u \<lparr> vout = v \<rparr>];
                   total1 = totalCollected + utxo_value u
               in if total1 \<ge> amount then Inr collected1
                  else collectUtxos ec amount rest collected1 total1))"

definition getUtxos :: "electrum \<Rightarrow> int \<Rightarrow> string \<Rightarrow> error + collected list" where
  "getUtxos ec amount address =
     (case ec_getUnspent ec address of
        None \<Rightarrow> Inl NetworkFailure
      | Some unspent \<Rightarrow>
          if unspent = [] then Inl NoUnspentOutputs
          else collectUtxos ec amount unspent [] 0)"

text \<open>The inputs \<open>createPsbt\<close> adds; \<open>this._bip32.fingerprint\<close> is read once per
  UTXO.\<close>

definition addInputs ::
  "cryptolib \<Rightarrow> store \<Rightarrow> account \<Rightarrow> collected list \<Rightarrow> error + psbt_input list" where
  "addInputs c s a utxoSet =
     (if utxoSet = [] then Inr []
      else case a_bip32 a of
             None \<Rightarrow> Inl TypeError
           | Some n \<Rightarrow>
               Inr (map (\<lambda>u.
                      \<lparr> pi_hash = tx_hash u, pi_index = tx_pos u,
                        pi_witnessUtxo =
                          \<lparr> out_value = utxo_value u, out_script = out_script (vout u) \<rparr>,
                        pi_bip32Derivation =
                          [(fingerprint c (s ! node_Q n), a_path a, s ! publicKey (a_keyPair a))],
                        pi_finalScriptWitness = None \<rparr>) utxoSet))"

text \<open>The outputs: the recipient first, then the change when it exceeds the dust
  limit; a negative change throws.\<close>

definition addOutputs ::
  "bitcoinjs \<Rightarrow> account \<Rightarrow> int \<Rightarrow> string \<Rightarrow> int \<Rightarrow> int \<Rightarrow> error + txout list" where
  "addOutputs lib a amount recipient totalInput fee =
     (case toOutputScript lib recipient of
        None \<Rightarrow> Inl InvalidAddress
      | Some toScript \<Rightarrow>
          let change = totalInput - amount - fee
          in if change > DUST_LIMIT then
               (case toOutputScript lib (a_address a) of
                  None \<Rightarrow> Inl InvalidAddress
                | Some ownScript \<Rightarrow>
                    Inr [\<lparr> out_value = amount, out_script = toScript \<rparr>,
                         \<lparr> out_value = change, out_script = ownScript \<rparr>])
             else if change < 0 then Inl InsufficientBalance
             else Inr [\<lparr> out_value = amount, out_script = toScript \<rparr>])"

text \<open>\<open>signInputHD\<close> on every input, then \<open>finalizeAllInputs\<close>, which throws on a
  PSBT without inputs.\<close>

definition signAndFinalize :: "bitcoinjs \<Rightarrow> store \<Rightarrow> account \<Rightarrow> psbt \<Rightarrow> error + psbt" where
  "signAndFinalize lib s a p =
     (if p_inputs p = [] then Inl SigningFailure
      else case a_bip32 a of
             None \<Rightarrow> Inl TypeError
           | Some n \<Rightarrow>
               let ws = map (signInputHD lib (s ! node_D n) (s ! node_chainCode n) p)
                          [0..<length (p_inputs p)]
               in if None \<in> set ws then Inl SigningFailure
                  else Inr (p\<lparr> p_inputs :=
                              map (\<lambda>(i, w). i\<lparr> pi_finalScriptWitness := w \<rparr>)
                                (zip (p_inputs p) ws) \<rparr>))"

definition createPsbt ::
  "bitcoinjs \<Rightarrow> cryptolib \<Rightarrow> store \<Rightarrow> account \<Rightarrow> collected list \<Rightarrow> int \<Rightarrow> string \<Rightarrow> int \<Rightarrow>
   int \<Rightarrow> error + psbt" where
  "createPsbt lib c s a utxoSet amount recipient totalInput fee =
     (case addInputs c s a utxoSet of
        Inl e \<Rightarrow> Inl e
      | Inr inputs \<Rightarrow>
          (case addOutputs lib a amount recipient totalInput fee of
             Inl e \<Rightarrow> Inl e
           | Inr outputs \<Rightarrow>
               signAndFinalize lib s a \<lparr> p_inputs = inputs, p_outputs = outputs \<rparr>))"

text \<open>\<open>feeRate * vsize\<close>, rounded up, and not below 141.\<close>

definition estimatedFeeOf :: "rat \<Rightarrow> nat \<Rightarrow> int" where
  "estimatedFeeOf feeRate vsize = max \<lceil>feeRate * of_nat vsize\<rceil> 141"

definition getRawTransaction ::
  "bitcoinjs \<Rightarrow> cryptolib \<Rightarrow> store \<Rightarrow> account \<Rightarrow> collected list \<Rightarrow> int \<Rightarrow> string \<Rightarrow> rat \<Rightarrow>
   error + raw_transaction" where
  "getRawTransaction lib c s a utxoSet amount recipient feeRate =
     (if amount \<le> DUST_LIMIT then Inl BelowDustLimit
      else
        let totalInput = foldl (\<lambda>sum u. sum + utxo_value u) 0 utxoSet
        in case createPsbt lib c s a utxoSet amount recipient totalInput 0 of
             Inl e \<Rightarrow> Inl e
           | Inr dummy \<Rightarrow>
               let estimatedFee = estimatedFeeOf feeRate (virtualSize lib dummy)
               in case createPsbt lib c s a utxoSet amount recipient totalInput estimatedFee of
                    Inl e \<Rightarrow> Inl e
                  | Inr p \<Rightarrow>
                      Inr \<lparr> rt_txid = getId lib p, rt_hex = toHex lib p,
                            rt_fee = estimatedFee \<rparr>)"

definition getTransaction ::
  "bitcoinjs \<Rightarrow> cryptolib \<Rightarrow> electrum \<Rightarrow> store \<Rightarrow> account \<Rightarrow> string \<Rightarrow> int \<Rightarrow>
   error + raw_transaction" where
  "getTransaction lib c ec s a recipient amount =
     (case getUtxos ec amount (a_address a) of
        Inl e \<Rightarrow> Inl e
      | Inr utxoSet \<Rightarrow>
          (case ec_getFeeEstimateInSatsPerVb ec of
             None \<Rightarrow> Inl NetworkFailure
           | Some rate \<Rightarrow>
               let feeRateInSatsPerVb = (if rate < 1 then 1 else rate)
               in getRawTransaction lib c s a utxoSet amount recipient feeRateInSatsPerVb))"

definition sendTransaction ::
  "bitcoinjs \<Rightarrow> cryptolib \<Rightarrow> electrum \<Rightarrow> store \<Rightarrow> account \<Rightarrow> string \<Rightarrow> int \<Rightarrow>
   error + transaction_result" where
  "sendTransaction lib c ec s a to value =
     (case getTransaction lib c ec s a to value of
        Inl e \<Rightarrow> Inl e
      | Inr t \<Rightarrow>
          (case ec_broadcastTransaction ec (rt_hex t) of
             None \<Rightarrow> Inl NetworkFailure
           | Some _ \<Rightarrow> Inr \<lparr> tr_hash = rt_txid t, tr_fee = rt_fee t \<rparr>))"

definition quoteSendTransaction ::
  "bitcoinjs \<Rightarrow> cryptolib \<Rightarrow> electrum \<Rightarrow> store \<Rightarrow> account \<Rightarrow> string \<Rightarrow> int \<Rightarrow> error + int" where
  "quoteSendTransaction lib c ec s a to value =
     (case getTransaction lib c ec s a to value of
        Inl e \<Rightarrow> Inl e
      | Inr t \<Rightarrow> Inr (rt_fee t))"

section \<open>The fee estimate of the read-only account\<close>

text \<open>\<open>estimateFee\<close> is \<open>_estimateFee\<close> of the read-only account, with its two local
  functions; the source's \<open>total\<close> is \<open>totalIn\<close> here.\<close>

definition encodeVarInt :: "nat \<Rightarrow> bytes" where
  "encodeVarInt n =
     (if n < 0xfd then [of_nat n]
      else if n \<le> 0xffff then [0xfd, of_nat (n mod 256), of_nat (n div 256)]
      else [0xfe, of_nat (n mod 256), of_nat (n div 256 mod 256),
            of_nat (n div 65536 mod 256), of_nat (n div 16777216 mod 256)])"

definition serializeWitness :: "bytes list \<Rightarrow> bytes" where
  "serializeWitness items =
     encodeVarInt (length items) @ concat (map (\<lambda>it. encodeVarInt (length it) @ it) items)"

definition finalWitness :: bytes where
  "finalWitness = serializeWitness [replicate 71 1, replicate 33 2]"

text \<open>
  The fee rate and the product \<open>vsize * feeRate\<close> are JavaScript numbers, that is IEEE
  doubles, not the exact BigNumber of the account's builder. The two operations on them
  are parameters: \<open>toNumber\<close> is \<open>Number(feeRate)\<close>, the double next to the estimate, and
  \<open>ceilTimes vsize feeRate\<close> is \<open>Math.ceil(vsize * feeRate)\<close> with the product rounded to a
  double first. The sums of satoshis are whole numbers far below \<open>2^53\<close>, on which
  doubles are exact, and stay \<open>int\<close>.
\<close>

record jsnumber =
  toNumber :: "rat \<Rightarrow> rat"
  ceilTimes :: "nat \<Rightarrow> rat \<Rightarrow> int"

text \<open>The provisional PSBT of one round of the loop: every selected UTXO as an input
  with the dummy witness, the recipient output, and the provisional change when it
  exceeds the dust limit.\<close>

definition provisionalPsbt :: "script \<Rightarrow> script \<Rightarrow> int \<Rightarrow> utxo list \<Rightarrow> int \<Rightarrow> psbt" where
  "provisionalPsbt fromScript toScript value selected totalIn =
     \<lparr> p_inputs =
         map (\<lambda>u. \<lparr> pi_hash = tx_hash u, pi_index = tx_pos u,
                    pi_witnessUtxo = \<lparr> out_value = utxo_value u, out_script = fromScript \<rparr>,
                    pi_bip32Derivation = [],
                    pi_finalScriptWitness = Some finalWitness \<rparr>) selected,
       p_outputs =
         \<lparr> out_value = value, out_script = toScript \<rparr> #
         (let provisionalChange = totalIn - value
          in if provisionalChange > DUST_LIMIT
             then [\<lparr> out_value = provisionalChange, out_script = fromScript \<rparr>]
             else []) \<rparr>"

text \<open>\<open>psbt.extractTransaction()\<close> with its fee check: a PSBT whose outputs exceed its
  inputs is not extracted (\<open>Outputs are spending more than Inputs\<close>). In the loop that
  is the case as long as the selected outputs hold less than the amount. The check of
  the same call against a fee rate of 5000 sat/vB and more is out of reach there: a
  provisional transaction pays at most the dust limit.\<close>

definition extractTransaction :: "psbt \<Rightarrow> error + psbt" where
  "extractTransaction p =
     (if inputSum p - outputSum p < 0 then Inl OutputsExceedInputs else Inr p)"

text \<open>The loop over the unspent outputs; it returns \<open>total\<close> and \<open>fee\<close> as the loop
  leaves them, or the error that ends it.\<close>

fun estimateLoop ::
  "bitcoinjs \<Rightarrow> jsnumber \<Rightarrow> script \<Rightarrow> script \<Rightarrow> int \<Rightarrow> rat \<Rightarrow> utxo list \<Rightarrow> utxo list \<Rightarrow>
   int \<Rightarrow> int \<Rightarrow> error + int \<times> int" where
  "estimateLoop lib js fromScript toScript value feeRate [] selected totalIn fee =
     Inr (totalIn, fee)"
| "estimateLoop lib js fromScript toScript value feeRate (u # rest) selected totalIn fee =
     (let selected1 = selected @ [u];
          totalIn1 = totalIn + utxo_value u
      in case extractTransaction
                (provisionalPsbt fromScript toScript value selected1 totalIn1) of
           Inl e \<Rightarrow> Inl e
         | Inr tx \<Rightarrow>
             let vsize = virtualSize lib tx;
                 fee1 = max (ceilTimes js vsize feeRate) 141
             in if totalIn1 \<ge> value + fee1 then Inr (totalIn1, fee1)
                else estimateLoop lib js fromScript toScript value feeRate rest selected1
                       totalIn1 fee1)"

definition estimateFee ::
  "bitcoinjs \<Rightarrow> jsnumber \<Rightarrow> electrum \<Rightarrow> string \<Rightarrow> string \<Rightarrow> int \<Rightarrow> error + int" where
  "estimateFee lib js ec fromAddress to value =
     (case ec_getFeeEstimateInSatsPerVb ec of
        None \<Rightarrow> Inl NetworkFailure
      | Some rate \<Rightarrow>
          let feeRate = max (toNumber js rate) 1
          in case ec_getUnspent ec fromAddress of
               None \<Rightarrow> Inl NetworkFailure
             | Some utxos \<Rightarrow>
                 if utxos = [] then Inl NoUnspentOutputs
                 else
                   (case toOutputScript lib fromAddress of
                      None \<Rightarrow> Inl InvalidAddress
                    | Some fromScript \<Rightarrow>
                        (case toOutputScript lib to of
                           None \<Rightarrow> Inl InvalidAddress
                         | Some toScript \<Rightarrow>
                             (case estimateLoop lib js fromScript toScript value feeRate
                                     utxos [] 0 0 of
                                Inl e \<Rightarrow> Inl e
                              | Inr (totalIn, fee) \<Rightarrow>
                                  if totalIn < value + fee then Inl InsufficientBalance
                                  else Inr fee))))"

text \<open>\<open>quoteSendTransaction\<close> of the read-only account.\<close>

definition quoteSendTransactionReadOnly ::
  "bitcoinjs \<Rightarrow> jsnumber \<Rightarrow> electrum \<Rightarrow> string \<Rightarrow> string \<Rightarrow> int \<Rightarrow> error + int" where
  "quoteSendTransactionReadOnly lib js ec address to value =
     estimateFee lib js ec address to value"


section \<open>Transfer history: getTransfers of the script-hash read-only account\<close>

text \<open>
  The read-only account of \<open>src/wallet-account-read-only-btc.js\<close> asks the server by
  script hash, fetches every transaction anew and compares addresses, decoded with
  \<open>payments.p2wpkh\<close>, instead of scripts. \<open>ec_getTransaction\<close> stands for
  \<open>blockchainTransaction_get\<close> followed by \<open>Transaction.fromHex\<close>, and
  \<open>ec_getHistory\<close> for \<open>blockchainScripthash_getHistory\<close> on the script hash of the
  address. \<open>p2wpkh\<close> is the decoder, \<open>None\<close> when it throws on a script that is not
  P2WPKH. The fee is \<open>+(totalInput - totalOutput).toFixed(8)\<close>, which leaves a whole
  number of satoshis as it is, so \<open>feeOf\<close> serves here too.
\<close>

definition isAddressMatch :: "string option \<Rightarrow> string \<Rightarrow> bool" where
  "isAddressMatch scriptPubKeyAddress addr =
     (case scriptPubKeyAddress of None \<Rightarrow> False | Some x \<Rightarrow> x = addr)"

text \<open>\<open>getInputValue\<close>: an input whose lookup throws adds nothing.\<close>

fun getInputValue :: "electrum \<Rightarrow> txin list \<Rightarrow> int \<Rightarrow> int" where
  "getInputValue ec [] tot = tot"
| "getInputValue ec (input # rest) tot =
     (case ec_getTransaction ec (in_hash input) of
        None \<Rightarrow> getInputValue ec rest tot
      | Some prevTx \<Rightarrow>
          (case outAt prevTx (in_index input) of
             None \<Rightarrow> getInputValue ec rest tot
           | Some prevOut \<Rightarrow> getInputValue ec rest (tot + out_value prevOut)))"

text \<open>\<open>isOutgoingTx\<close>: the first input whose previous output decodes to the account's
  address settles it.\<close>

fun isOutgoingTx :: "electrum \<Rightarrow> (script \<Rightarrow> string option) \<Rightarrow> string \<Rightarrow> txin list \<Rightarrow> bool" where
  "isOutgoingTx ec p2wpkh address [] = False"
| "isOutgoingTx ec p2wpkh address (input # rest) =
     (case ec_getTransaction ec (in_hash input) of
        None \<Rightarrow> isOutgoingTx ec p2wpkh address rest
      | Some prevTx \<Rightarrow>
          (case outAt prevTx (in_index input) of
             None \<Rightarrow> isOutgoingTx ec p2wpkh address rest
           | Some prevOut \<Rightarrow>
               (case p2wpkh (out_script prevOut) of
                  None \<Rightarrow> isOutgoingTx ec p2wpkh address rest
                | Some addr \<Rightarrow>
                    if isAddressMatch (Some addr) address then True
                    else isOutgoingTx ec p2wpkh address rest)))"

text \<open>The loop over \<open>tx.outs.entries()\<close>; decoding an output that is not P2WPKH throws
  out of \<open>getTransfers\<close>.\<close>

fun emitEntries ::
  "(script \<Rightarrow> string option) \<Rightarrow> string \<Rightarrow> string \<Rightarrow> int \<Rightarrow> history_item \<Rightarrow> bool \<Rightarrow>
   int option \<Rightarrow> nat \<Rightarrow> txout list \<Rightarrow> transfer list \<Rightarrow> error + transfer list" where
  "emitEntries p2wpkh address direction limit item outgoing fee index [] transfers =
     Inr transfers"
| "emitEntries p2wpkh address direction limit item outgoing fee index (out # rest) transfers =
     (case p2wpkh (out_script out) of
        None \<Rightarrow> Inl TypeError
      | Some addr \<Rightarrow>
          (case directionType (isAddressMatch (Some addr) address) outgoing of
             None \<Rightarrow>
               emitEntries p2wpkh address direction limit item outgoing fee (Suc index) rest
                 transfers
           | Some d \<Rightarrow>
               if d = ''change'' then
                 emitEntries p2wpkh address direction limit item outgoing fee (Suc index) rest
                   transfers
               else if direction \<noteq> ''all'' \<and> direction \<noteq> d then
                 emitEntries p2wpkh address direction limit item outgoing fee (Suc index) rest
                   transfers
               else if int (length transfers) \<ge> limit then Inr transfers
               else
                 emitEntries p2wpkh address direction limit item outgoing fee (Suc index) rest
                   (transfers @
                     [\<lparr> t_txid = h_tx_hash item, t_height = h_height item,
                        t_value = out_value out, t_vout = index, t_direction = d,
                        t_recipient = Some addr, t_fee = fee, t_address = address \<rparr>])))"

fun historyEntries ::
  "electrum \<Rightarrow> (script \<Rightarrow> string option) \<Rightarrow> string \<Rightarrow> string \<Rightarrow> int \<Rightarrow>
   history_item list \<Rightarrow> transfer list \<Rightarrow> error + transfer list" where
  "historyEntries ec p2wpkh address direction limit [] transfers = Inr transfers"
| "historyEntries ec p2wpkh address direction limit (item # rest) transfers =
     (if int (length transfers) \<ge> limit then Inr transfers
      else
        (case ec_getTransaction ec (h_tx_hash item) of
           None \<Rightarrow> Inl NetworkFailure
         | Some t \<Rightarrow>
             (let totalInput = getInputValue ec (ins t) 0;
                  fee = feeOf totalInput t;
                  outgoing = isOutgoingTx ec p2wpkh address (ins t)
              in case emitEntries p2wpkh address direction limit item outgoing fee 0 (outs t)
                        transfers of
                   Inl e \<Rightarrow> Inl e
                 | Inr transfers1 \<Rightarrow>
                     historyEntries ec p2wpkh address direction limit rest transfers1)))"

definition getTransfers_scripthash ::
  "electrum \<Rightarrow> (script \<Rightarrow> string option) \<Rightarrow> string \<Rightarrow> transfer_options \<Rightarrow>
   error + transfer list" where
  "getTransfers_scripthash ec p2wpkh address options =
     (case ec_getHistory ec address of
        None \<Rightarrow> Inl NetworkFailure
      | Some history \<Rightarrow>
          historyEntries ec p2wpkh address (directionOf options) (limitOf options)
            (slice_from (skipOf options) history) [])"


section \<open>Reference notions for the statements\<close>

text \<open>What a transaction's inputs resolve to when every parent is looked up directly at
  the server, without the cache: the previous output of an input, or \<open>None\<close> when the
  parent cannot be fetched or has no such output.\<close>

definition resolvePrev :: "electrum \<Rightarrow> txin \<Rightarrow> txout option" where
  "resolvePrev ec i =
     (case ec_getTransaction ec (in_hash i) of
        None \<Rightarrow> None
      | Some p \<Rightarrow> outAt p (in_index i))"

definition inputValue :: "txout option \<Rightarrow> int" where
  "inputValue p = (case p of None \<Rightarrow> 0 | Some q \<Rightarrow> out_value q)"

definition spendsFrom :: "script \<Rightarrow> txout option \<Rightarrow> bool" where
  "spendsFrom myScript p = (case p of None \<Rightarrow> False | Some q \<Rightarrow> out_script q = myScript)"

definition totalInputOf :: "electrum \<Rightarrow> transaction \<Rightarrow> int" where
  "totalInputOf ec t = sum_list (map (\<lambda>i. inputValue (resolvePrev ec i)) (ins t))"

definition totalOutputOf :: "transaction \<Rightarrow> int" where
  "totalOutputOf t = sum_list (map out_value (outs t))"

definition outgoingOf :: "electrum \<Rightarrow> script \<Rightarrow> transaction \<Rightarrow> bool" where
  "outgoingOf ec myScript t =
     list_ex (\<lambda>i. spendsFrom myScript (resolvePrev ec i)) (ins t)"

text \<open>A record as the inner loop writes it for output \<open>t_vout r\<close> of the outputs \<open>os\<close>
  of transaction \<open>h\<close>.\<close>

definition emitted ::
  "script \<Rightarrow> txid \<Rightarrow> bool \<Rightarrow> int option \<Rightarrow> txout list \<Rightarrow> transfer \<Rightarrow> bool" where
  "emitted myScript h isOutgoing fee os r \<longleftrightarrow>
     t_txid r = h \<and> t_fee r = fee \<and> t_vout r < length os \<and>
     t_value r = out_value (os ! t_vout r) \<and>
     directionType (out_script (os ! t_vout r) = myScript) isOutgoing = Some (t_direction r) \<and>
     t_direction r \<noteq> ''change''"

text \<open>An output the inner loop passes over: unrelated, change, or filtered out.\<close>

definition skipped :: "string \<Rightarrow> string option \<Rightarrow> bool" where
  "skipped direction d \<longleftrightarrow>
     (case d of
        None \<Rightarrow> True
      | Some x \<Rightarrow> x = ''change'' \<or> (direction \<noteq> ''all'' \<and> direction \<noteq> x))"

text \<open>The BIP-32 master key and chain code of a seed: the two halves of
  \<open>HMAC-SHA512("Bitcoin seed", seed)\<close>.\<close>

definition masterKey :: "cryptolib \<Rightarrow> bytes \<Rightarrow> bytes" where
  "masterKey c seedBuffer = take 32 (hmac_sha512 c (fromUtf8 ''Bitcoin seed'') seedBuffer)"

definition masterChainCode :: "cryptolib \<Rightarrow> bytes \<Rightarrow> bytes" where
  "masterChainCode c seedBuffer = drop 32 (hmac_sha512 c (fromUtf8 ''Bitcoin seed'') seedBuffer)"

text \<open>A record as the script-hash account writes it for output \<open>t_vout r\<close> of \<open>os\<close>.\<close>

definition emittedEntry ::
  "(script \<Rightarrow> string option) \<Rightarrow> string \<Rightarrow> txid \<Rightarrow> bool \<Rightarrow> int option \<Rightarrow> txout list \<Rightarrow>
   transfer \<Rightarrow> bool" where
  "emittedEntry p2wpkh address h outgoing fee os r \<longleftrightarrow>
     t_txid r = h \<and> t_fee r = fee \<and> t_vout r < length os \<and>
     t_value r = out_value (os ! t_vout r) \<and>
     directionType (p2wpkh (out_script (os ! t_vout r)) = Some address) outgoing =
       Some (t_direction r) \<and>
     t_direction r \<noteq> ''change''"


section \<open>Example data\<close>

text \<open>A two-address network, a short chain and the history of address \<open>me\<close>: a funding
  transaction, a send with change, and a transaction one of whose parents the server
  does not have.\<close>

definition exCodec :: codec where
  "exCodec =
     \<lparr> toOutputScript =
         (\<lambda>a. if a = ''me'' then Some ''0014aa'' else if a = ''you'' then Some ''0014bb''
              else None),
       fromOutputScript =
         (\<lambda>s. if s = ''0014aa'' then Some ''me'' else if s = ''0014bb'' then Some ''you''
              else None) \<rparr>"

definition exTxs :: "txid \<Rightarrow> transaction option" where
  "exTxs i =
     (if i = ''g0'' then
        Some \<lparr> ins = [], outs = [\<lparr> out_value = 200000, out_script = ''0014bb'' \<rparr>] \<rparr>
      else if i = ''f0'' then
        Some \<lparr> ins = [\<lparr> in_hash = ''g0'', in_index = 0 \<rparr>],
               outs = [\<lparr> out_value = 100000, out_script = ''0014aa'' \<rparr>,
                       \<lparr> out_value = 99000, out_script = ''0014bb'' \<rparr>] \<rparr>
      else if i = ''s0'' then
        Some \<lparr> ins = [\<lparr> in_hash = ''f0'', in_index = 0 \<rparr>],
               outs = [\<lparr> out_value = 10000, out_script = ''0014bb'' \<rparr>,
                       \<lparr> out_value = 89800, out_script = ''0014aa'' \<rparr>] \<rparr>
      else if i = ''f1'' then
        Some \<lparr> ins = [], outs = [\<lparr> out_value = 1000, out_script = ''0014bb'' \<rparr>] \<rparr>
      else if i = ''t1'' then
        Some \<lparr> ins = [\<lparr> in_hash = ''f1'', in_index = 0 \<rparr>,
                      \<lparr> in_hash = ''zz'', in_index = 0 \<rparr>],
               outs = [\<lparr> out_value = 500, out_script = ''0014aa'' \<rparr>] \<rparr>
      else None)"

definition exHistory :: "history_item list" where
  "exHistory =
     [\<lparr> h_tx_hash = ''f0'', h_height = 100 \<rparr>,
      \<lparr> h_tx_hash = ''s0'', h_height = 0 \<rparr>,
      \<lparr> h_tx_hash = ''t1'', h_height = 0 \<rparr>]"

definition exElectrum :: electrum where
  "exElectrum =
     \<lparr> ec_getHistory = (\<lambda>a. if a = ''me'' then Some exHistory else None),
       ec_getTransaction = exTxs,
       ec_getUnspent = (\<lambda>a. None),
       ec_getFeeEstimateInSatsPerVb = Some 1,
       ec_broadcastTransaction = (\<lambda>h. None) \<rparr>"

definition noOptions :: transfer_options where
  "noOptions = \<lparr> opt_direction = None, opt_limit = None, opt_skip = None \<rparr>"

definition exIncoming :: transfer where
  "exIncoming =
     \<lparr> t_txid = ''f0'', t_height = 100, t_value = 100000, t_vout = 0,
       t_direction = ''incoming'', t_recipient = Some ''me'', t_fee = Some 1000,
       t_address = ''me'' \<rparr>"

definition exOutgoing :: transfer where
  "exOutgoing =
     \<lparr> t_txid = ''s0'', t_height = 0, t_value = 10000, t_vout = 0,
       t_direction = ''outgoing'', t_recipient = Some ''you'', t_fee = Some 200,
       t_address = ''me'' \<rparr>"

definition exPartial :: transfer where
  "exPartial =
     \<lparr> t_txid = ''t1'', t_height = 0, t_value = 500, t_vout = 0,
       t_direction = ''incoming'', t_recipient = Some ''me'', t_fee = Some 500,
       t_address = ''me'' \<rparr>"


text \<open>Stand-ins for the libraries, small enough to evaluate: the primitives keep the
  shapes of the real ones (a 64-byte HMAC, a 33-byte public key, a derivation that
  changes the key) and nothing of their cryptography. The virtual size is that of a
  transaction of P2WPKH inputs with 107-byte witnesses and P2WPKH outputs: a weight of
  \<open>42 + 271 * inputs + 124 * outputs\<close>, divided by 4 and rounded up. The numbers are
  exact, as doubles are on whole numbers of this size.\<close>

definition exCrypto :: cryptolib where
  "exCrypto =
     \<lparr> hmac_sha512 = (\<lambda>k d. replicate 32 (of_nat (length d)) @ replicate 32 9),
       sha256 = (\<lambda>m. replicate 32 (of_nat (length m))),
       isPrivate = (\<lambda>k. length k = 32 \<and> k \<noteq> replicate 32 0),
       pointFromScalar = (\<lambda>k. 2 # k),
       derivePath = (\<lambda>(k, cc) p. if p = [] then None
                                    else Some (map (\<lambda>b. b + of_nat (length p)) k, cc)),
       fingerprint = take 4,
       ecdsaSign = (\<lambda>k h. k @ h),
       ecdsaVerify = (\<lambda>h q sg. if length sg = 64
                                 then Some (q = 2 # take 32 sg \<and> drop 32 sg = h) else None),
       p2wpkhAddress = (\<lambda>q. ''me''),
       toBase64 = map (\<lambda>b. char_of (unat b)),
       fromBase64 = map (\<lambda>ch. of_nat (of_char ch)) \<rparr>"

definition exLib :: bitcoinjs where
  "exLib =
     \<lparr> toOutputScript = toOutputScript exCodec,
       fromOutputScript = fromOutputScript exCodec,
       signInputHD = (\<lambda>d cc p i. Some [2]),
       virtualSize =
         (\<lambda>p. (42 + 271 * length (p_inputs p) + 124 * length (p_outputs p) + 3) div 4),
       getId = (\<lambda>p. ''id''),
       toHex = (\<lambda>p. ''hex'') \<rparr>"

definition exNumber :: jsnumber where
  "exNumber = \<lparr> toNumber = (\<lambda>x. x), ceilTimes = (\<lambda>vsize feeRate. \<lceil>of_nat vsize * feeRate\<rceil>) \<rparr>"

definition exSeed :: bytes where
  "exSeed = [1, 2, 3, 4]"

definition exStore :: store where
  "exStore =
     [replicate 32 4 @ replicate 32 9, replicate 32 4, replicate 32 9,
      replicate 32 4, replicate 32 9, 2 # replicate 32 4, 2 # replicate 32 19]"

definition exAccount :: account where
  "exAccount =
     \<lparr> a_electrumConnected = True,
       a_masterKeyAndChainCodeBuffer = Some 0,
       a_privateKeyBuffer = Some 1,
       a_chainCodeBuffer = Some 2,
       a_bip32 = Some \<lparr> node_D = 3, node_Q = 5, node_chainCode = 4 \<rparr>,
       a_path = BIP_84_BTC_DERIVATION_PATH_PREFIX @ ''/0'/0/0'',
       a_address = ''me'',
       a_keyPair = \<lparr> publicKey = 6, privateKey = 1 \<rparr> \<rparr>"

text \<open>A wallet with two unspent outputs of 1000 and 100000 satoshis, and a fee rate of
  1 sat/vB.\<close>

definition exUnspent :: "utxo list" where
  "exUnspent =
     [\<lparr> tx_hash = ''u1'', tx_pos = 0, utxo_value = 1000 \<rparr>,
      \<lparr> tx_hash = ''u2'', tx_pos = 0, utxo_value = 100000 \<rparr>]"

definition exWallet :: electrum where
  "exWallet =
     \<lparr> ec_getHistory = (\<lambda>a. Some []),
       ec_getTransaction =
         (\<lambda>i. if i = ''u1'' then
                  Some \<lparr> ins = [], outs = [\<lparr> out_value = 1000, out_script = ''0014aa'' \<rparr>] \<rparr>
                else if i = ''u2'' then
                  Some \<lparr> ins = [], outs = [\<lparr> out_value = 100000, out_script = ''0014aa'' \<rparr>] \<rparr>
                else None),
       ec_getUnspent = (\<lambda>a. if a = ''me'' then Some exUnspent else None),
       ec_getFeeEstimateInSatsPerVb = Some 1,
       ec_broadcastTransaction = (\<lambda>h. Some ''id'') \<rparr>"

definition exRaw :: raw_transaction where
  "exRaw = \<lparr> rt_txid = ''id'', rt_hex = ''hex'', rt_fee = 208 \<rparr>"

text \<open>The example account after \<open>dispose()\<close>.\<close>

definition exZeroed :: store where
  "exZeroed =
     [replicate 64 0, replicate 32 0, replicate 32 0, replicate 32 0, replicate 32 9,
      replicate 33 0, 2 # replicate 32 19]"

definition exDisposed :: account where
  "exDisposed =
     \<lparr> a_electrumConnected = False,
       a_masterKeyAndChainCodeBuffer = None,
       a_privateKeyBuffer = None,
       a_chainCodeBuffer = None,
       a_bip32 = None,
       a_path = BIP_84_BTC_DERIVATION_PATH_PREFIX @ ''/0'/0/0'',
       a_address = ''me'',
       a_keyPair = \<lparr> publicKey = 6, privateKey = 1 \<rparr> \<rparr>"


section \<open>Transfer history: the cache is transparent\<close>

lemma getTx_coherent:
  assumes "cache \<subseteq>\<^sub>m ec_getTransaction ec"
  shows "fst (getTx ec cache i) = ec_getTransaction ec i"
    and "snd (getTx ec cache i) \<subseteq>\<^sub>m ec_getTransaction ec"
proof -
  show "fst (getTx ec cache i) = ec_getTransaction ec i"
  proof (cases "cache i")
    case None
    then show ?thesis by (simp add: getTx_def split: option.splits)
  next
    case (Some t)
    with assms have "ec_getTransaction ec i = Some t"
      by (metis domI map_le_def)
    with Some show ?thesis by (simp add: getTx_def)
  qed
  show "snd (getTx ec cache i) \<subseteq>\<^sub>m ec_getTransaction ec"
    using assms by (auto simp: getTx_def map_le_def split: option.splits)
qed

lemma prevOuts_coherent:
  "cache \<subseteq>\<^sub>m ec_getTransaction ec \<Longrightarrow>
   fst (prevOuts ec cache xs) = map (resolvePrev ec) xs \<and>
   snd (prevOuts ec cache xs) \<subseteq>\<^sub>m ec_getTransaction ec"
proof (induction xs arbitrary: cache)
  case Nil
  then show ?case by simp
next
  case (Cons i rest)
  obtain r c1 where g: "getTx ec cache (in_hash i) = (r, c1)"
    by (cases "getTx ec cache (in_hash i)")
  from getTx_coherent[OF Cons.prems, of "in_hash i"] g
  have r: "r = ec_getTransaction ec (in_hash i)" and c1: "c1 \<subseteq>\<^sub>m ec_getTransaction ec"
    by simp_all
  obtain rs c2 where p: "prevOuts ec c1 rest = (rs, c2)"
    by (cases "prevOuts ec c1 rest")
  from Cons.IH[OF c1] p
  have rs: "rs = map (resolvePrev ec) rest" and c2: "c2 \<subseteq>\<^sub>m ec_getTransaction ec"
    by simp_all
  show ?case using g p r rs c2
    by (cases "ec_getTransaction ec (in_hash i)") (simp_all add: resolvePrev_def)
qed

lemma scanPrevOuts_eq:
  "scanPrevOuts my ps (t, g) =
     (t + sum_list (map inputValue ps), g \<or> list_ex (spendsFrom my) ps)"
proof (induction ps arbitrary: t g)
  case Nil
  then show ?case by simp
next
  case (Cons p ps)
  then show ?case by (cases p) (auto simp: inputValue_def spendsFrom_def)
qed

lemma foldl_out_value: "foldl (\<lambda>sum o'. sum + out_value o') z xs = z + sum_list (map out_value xs)"
  by (induction xs arbitrary: z) simp_all

lemma feeOf_eq:
  "feeOf totalInput t = (if totalInput > 0 then Some (totalInput - totalOutputOf t) else None)"
  by (simp add: feeOf_def totalOutputOf_def foldl_out_value)

section \<open>Transfer history: the inner loop\<close>

lemma emitOuts_skip:
  "skipped direction (directionType (out_script out = my) og) \<Longrightarrow>
   emitOuts fromOut address my direction limit item og fee v (out # rest) acc =
   emitOuts fromOut address my direction limit item og fee (Suc v) rest acc"
  by (auto simp: skipped_def split: option.splits)

lemma emitOuts_full:
  "\<not> skipped direction (directionType (out_script out = my) og) \<Longrightarrow>
   limit \<le> int (length acc) \<Longrightarrow>
   emitOuts fromOut address my direction limit item og fee v (out # rest) acc = acc"
  by (auto simp: skipped_def split: option.splits)

lemma emitOuts_push:
  "\<not> skipped direction (directionType (out_script out = my) og) \<Longrightarrow>
   \<not> limit \<le> int (length acc) \<Longrightarrow>
   emitOuts fromOut address my direction limit item og fee v (out # rest) acc =
   emitOuts fromOut address my direction limit item og fee (Suc v) rest
     (acc @ [\<lparr> t_txid = h_tx_hash item, t_height = h_height item,
                t_value = out_value out, t_vout = v,
                t_direction = the (directionType (out_script out = my) og),
                t_recipient = fromOut (out_script out), t_fee = fee,
                t_address = address \<rparr>])"
  by (auto simp: skipped_def split: option.splits)

lemma emitOuts_records:
  "r \<in> set (emitOuts fromOut address my direction limit item og fee (length pre) rest acc) \<Longrightarrow>
   r \<in> set acc \<or> emitted my (h_tx_hash item) og fee (pre @ rest) r"
proof (induction rest arbitrary: pre acc)
  case Nil
  then show ?case by simp
next
  case (Cons out rest)
  let ?d = "directionType (out_script out = my) og"
  have step: "r \<in> set acc' \<or> emitted my (h_tx_hash item) og fee (pre @ out # rest) r"
    if "r \<in> set (emitOuts fromOut address my direction limit item og fee (Suc (length pre))
                    rest acc')"
    for acc'
    using Cons.IH[of "pre @ [out]" acc'] that by simp
  consider (skip) "skipped direction ?d"
    | (full) "\<not> skipped direction ?d" "limit \<le> int (length acc)"
    | (push) "\<not> skipped direction ?d" "\<not> limit \<le> int (length acc)"
    by blast
  then show ?case
  proof cases
    case skip
    from Cons.prems show ?thesis
      unfolding emitOuts_skip[OF skip] by (rule step)
  next
    case full
    from Cons.prems show ?thesis
      unfolding emitOuts_full[OF full] by simp
  next
    case push
    let ?new = "\<lparr> t_txid = h_tx_hash item, t_height = h_height item,
                t_value = out_value out, t_vout = length pre,
                t_direction = the ?d,
                t_recipient = fromOut (out_script out), t_fee = fee,
                t_address = address \<rparr>"
    from Cons.prems
    have "r \<in> set acc \<or> r = ?new \<or> emitted my (h_tx_hash item) og fee (pre @ out # rest) r"
      unfolding emitOuts_push[OF push] using step[of "acc @ [?new]"] by auto
    moreover have "emitted my (h_tx_hash item) og fee (pre @ out # rest) ?new"
      using push(1) by (auto simp: emitted_def skipped_def split: option.splits)
    ultimately show ?thesis by auto
  qed
qed

lemma emitOuts_length:
  "length acc \<le> nat limit \<Longrightarrow>
   length (emitOuts fromOut address my direction limit item og fee v rest acc) \<le> nat limit"
proof (induction rest arbitrary: v acc)
  case Nil
  then show ?case by simp
next
  case (Cons out rest)
  let ?d = "directionType (out_script out = my) og"
  consider (skip) "skipped direction ?d"
    | (full) "\<not> skipped direction ?d" "limit \<le> int (length acc)"
    | (push) "\<not> skipped direction ?d" "\<not> limit \<le> int (length acc)"
    by blast
  then show ?case
  proof cases
    case skip
    show ?thesis unfolding emitOuts_skip[OF skip] by (rule Cons.IH[OF Cons.prems])
  next
    case full
    show ?thesis unfolding emitOuts_full[OF full] by (rule Cons.prems)
  next
    case push
    show ?thesis unfolding emitOuts_push[OF push]
      by (rule Cons.IH) (use push(2) in simp)
  qed
qed

section \<open>Transfer history: the outer loop\<close>

lemma historyLoop_length:
  "length acc \<le> nat limit \<Longrightarrow>
   length (historyLoop ec fromOut address my direction limit cache items acc) \<le> nat limit"
proof (induction items arbitrary: cache acc)
  case Nil
  then show ?case by simp
next
  case (Cons item rest)
  show ?case
  proof (cases "int (length acc) \<ge> limit")
    case True
    with Cons.prems show ?thesis by simp
  next
    case False
    then show ?thesis
      using Cons.prems
      by (auto split: option.splits prod.splits intro!: Cons.IH emitOuts_length)
  qed
qed

lemma historyLoop_records:
  "cache \<subseteq>\<^sub>m ec_getTransaction ec \<Longrightarrow>
   r \<in> set (historyLoop ec fromOut address my direction limit cache items acc) \<Longrightarrow>
   r \<in> set acc \<or>
   (\<exists>t. ec_getTransaction ec (t_txid r) = Some t \<and>
        emitted my (t_txid r) (outgoingOf ec my t) (feeOf (totalInputOf ec t) t) (outs t) r)"
proof (induction items arbitrary: cache acc)
  case Nil
  then show ?case by simp
next
  case (Cons item rest)
  show ?case
  proof (cases "int (length acc) \<ge> limit")
    case True
    with Cons.prems show ?thesis by simp
  next
    case False
    obtain g c1 where g: "getTx ec cache (h_tx_hash item) = (g, c1)"
      by (cases "getTx ec cache (h_tx_hash item)")
    from getTx_coherent[OF Cons.prems(1), of "h_tx_hash item"] g
    have gv: "g = ec_getTransaction ec (h_tx_hash item)"
      and c1: "c1 \<subseteq>\<^sub>m ec_getTransaction ec"
      by simp_all
    show ?thesis
    proof (cases g)
      case None
      with Cons.prems(2) False g
      have "r \<in> set (historyLoop ec fromOut address my direction limit c1 rest acc)" by simp
      from Cons.IH[OF c1 this] show ?thesis .
    next
      case (Some t)
      obtain pouts c2 where p: "prevOuts ec c1 (ins t) = (pouts, c2)"
        by (cases "prevOuts ec c1 (ins t)")
      from prevOuts_coherent[OF c1, of "ins t"] p
      have pv: "pouts = map (resolvePrev ec) (ins t)"
        and c2: "c2 \<subseteq>\<^sub>m ec_getTransaction ec"
        by simp_all
      have sc: "scanPrevOuts my pouts (0, False) = (totalInputOf ec t, outgoingOf ec my t)"
        by (simp add: scanPrevOuts_eq pv totalInputOf_def outgoingOf_def list_ex_iff comp_def)
      let ?acc = "emitOuts fromOut address my direction limit item (outgoingOf ec my t)
                    (feeOf (totalInputOf ec t) t) 0 (outs t) acc"
      from Cons.prems(2) False g Some p sc
      have "r \<in> set (historyLoop ec fromOut address my direction limit c2 rest ?acc)" by simp
      from Cons.IH[OF c2 this]
      consider "r \<in> set ?acc"
        | "\<exists>t. ec_getTransaction ec (t_txid r) = Some t \<and>
             emitted my (t_txid r) (outgoingOf ec my t) (feeOf (totalInputOf ec t) t)
               (outs t) r"
        by blast
      then show ?thesis
      proof cases
        case 1
        from emitOuts_records[of r fromOut address my direction limit item _ _ "[]" "outs t" acc] 1
        have "r \<in> set acc \<or> emitted my (h_tx_hash item) (outgoingOf ec my t)
                 (feeOf (totalInputOf ec t) t) (outs t) r" by simp
        then show ?thesis
        proof
          assume "r \<in> set acc" then show ?thesis by simp
        next
          assume e: "emitted my (h_tx_hash item) (outgoingOf ec my t)
                 (feeOf (totalInputOf ec t) t) (outs t) r"
          then have "t_txid r = h_tx_hash item" by (simp add: emitted_def)
          with e gv Some show ?thesis by auto
        qed
      next
        case 2
        then show ?thesis by simp
      qed
    qed
  qed
qed

lemma getTransfers_records:
  assumes "getTransfers ec net address options = Inr rs" and "r \<in> set rs"
  shows "\<exists>myScript t.
           toOutputScript net address = Some myScript \<and>
           ec_getTransaction ec (t_txid r) = Some t \<and>
           emitted myScript (t_txid r) (outgoingOf ec myScript t)
             (feeOf (totalInputOf ec t) t) (outs t) r"
proof -
  from assms(1) obtain history myScript where
    h: "ec_getHistory ec address = Some history" and
    m: "toOutputScript net address = Some myScript" and
    rs: "rs = historyLoop ec (fromOutputScript net) address myScript (directionOf options)
               (limitOf options) Map.empty (slice_from (skipOf options) history) []"
    by (auto simp: getTransfers_def split: option.splits)
  have "Map.empty \<subseteq>\<^sub>m ec_getTransaction ec" by simp
  from historyLoop_records[OF this assms(2)[unfolded rs]] m show ?thesis by auto
qed

lemma exTransfers_eval:
  "getTransfers exElectrum exCodec ''me'' noOptions = Inr [exIncoming, exOutgoing, exPartial]"
  by (simp add: getTransfers_def exElectrum_def exCodec_def noOptions_def exHistory_def
      exIncoming_def exOutgoing_def exPartial_def directionOf_def limitOf_def skipOf_def
      slice_from_def getTx_def exTxs_def outAt_def directionType_def feeOf_def)


section \<open>Transfer history: direction, fee and pagination\<close>

lemma getTx_history_upd:
  "getTx (ec\<lparr> ec_getHistory := h \<rparr>) cache i = getTx ec cache i"
  by (simp add: getTx_def split: option.splits)

lemma prevOuts_history_upd:
  "prevOuts (ec\<lparr> ec_getHistory := h \<rparr>) cache xs = prevOuts ec cache xs"
  by (induction xs arbitrary: cache)
    (simp_all add: getTx_history_upd split: prod.splits option.splits)

lemma historyLoop_history_upd:
  "historyLoop (ec\<lparr> ec_getHistory := h \<rparr>) fromOut address my direction limit cache items acc =
   historyLoop ec fromOut address my direction limit cache items acc"
  by (induction items arbitrary: cache acc)
    (simp_all add: getTx_history_upd prevOuts_history_upd split: prod.splits option.splits)

lemma historyLoop_limit_reached:
  "limit \<le> int (length acc) \<Longrightarrow>
   historyLoop ec fromOut address my direction limit cache items acc = acc"
  by (cases items) simp_all

lemma slice_from_nonneg: "0 \<le> k \<Longrightarrow> slice_from k xs = drop (nat k) xs"
  by (simp add: slice_from_def)

lemma totalInputOf_unfetched:
  "\<forall>i\<in>set (ins t). ec_getTransaction ec (in_hash i) = None \<Longrightarrow> totalInputOf ec t = 0"
proof -
  assume a: "\<forall>i\<in>set (ins t). ec_getTransaction ec (in_hash i) = None"
  have "map (\<lambda>i. inputValue (resolvePrev ec i)) (ins t) = map (\<lambda>i. 0) (ins t)"
    using a by (intro map_cong) (simp_all add: resolvePrev_def inputValue_def)
  then show ?thesis unfolding totalInputOf_def by (simp only: sum_list_0)
qed

lemma outgoingOf_fetched:
  "outgoingOf ec myScript t \<Longrightarrow>
   \<exists>i\<in>set (ins t). \<exists>p. ec_getTransaction ec (in_hash i) = Some p \<and>
      in_index i < length (outs p) \<and> out_script (outs p ! in_index i) = myScript"
  by (auto simp: outgoingOf_def list_ex_iff spendsFrom_def resolvePrev_def outAt_def
      split: option.splits if_splits)

text \<open>
  Claim C7. Every record returned by \<open>getTransfers\<close> has direction \<open>incoming\<close> or
  \<open>outgoing\<close> and never \<open>change\<close>. The output at the record's \<open>vout\<close>, in the transaction
  the server holds under the record's \<open>txid\<close>, carries the script of the account's own
  address exactly when the direction is \<open>incoming\<close>. The direction is the classification
  of that output, so an output classified as change or left unclassified (unrelated) is
  never returned.
\<close>

theorem getTransfers_direction:
  assumes "getTransfers ec net address options = Inr rs" and "r \<in> set rs"
  shows "(t_direction r = ''incoming'' \<or> t_direction r = ''outgoing'') \<and>
         t_direction r \<noteq> ''change'' \<and>
         (\<exists>myScript t.
            toOutputScript net address = Some myScript \<and>
            ec_getTransaction ec (t_txid r) = Some t \<and>
            t_vout r < length (outs t) \<and>
            ((out_script (outs t ! t_vout r) = myScript) = (t_direction r = ''incoming'')) \<and>
            directionType (out_script (outs t ! t_vout r) = myScript)
              (outgoingOf ec myScript t) = Some (t_direction r))"
proof -
  from getTransfers_records[OF assms] obtain myScript t where
    m: "toOutputScript net address = Some myScript" and
    t: "ec_getTransaction ec (t_txid r) = Some t" and
    e: "emitted myScript (t_txid r) (outgoingOf ec myScript t)
          (feeOf (totalInputOf ec t) t) (outs t) r"
    by blast
  let ?toSelf = "out_script (outs t ! t_vout r) = myScript"
  from e have v: "t_vout r < length (outs t)"
    and d: "directionType ?toSelf (outgoingOf ec myScript t) = Some (t_direction r)"
    and nc: "t_direction r \<noteq> ''change''"
    by (simp_all add: emitted_def)
  from d nc have dir: "t_direction r = ''incoming'' \<or> t_direction r = ''outgoing''"
    by (auto simp: directionType_def split: if_splits)
  from d nc have iff: "?toSelf = (t_direction r = ''incoming'')"
    by (auto simp: directionType_def split: if_splits)
  from dir nc m t v iff d show ?thesis by blast
qed

theorem getTransfers_direction_witness:
  "(t_direction exOutgoing = ''incoming'' \<or> t_direction exOutgoing = ''outgoing'') \<and>
   t_direction exOutgoing \<noteq> ''change'' \<and>
   (\<exists>myScript t.
      toOutputScript exCodec ''me'' = Some myScript \<and>
      ec_getTransaction exElectrum (t_txid exOutgoing) = Some t \<and>
      t_vout exOutgoing < length (outs t) \<and>
      ((out_script (outs t ! t_vout exOutgoing) = myScript) =
         (t_direction exOutgoing = ''incoming'')) \<and>
      directionType (out_script (outs t ! t_vout exOutgoing) = myScript)
        (outgoingOf exElectrum myScript t) = Some (t_direction exOutgoing))"
  using getTransfers_direction[OF exTransfers_eval, of exOutgoing] by simp

text \<open>
  Claim C4, as the code has it. The records of a history transaction carry
  \<open>fee = null\<close> exactly when the inputs whose parent could be fetched sum to nothing,
  which is so in particular when no parent can be fetched; otherwise the fee is that sum
  less the total output, also when some other parent is missing. A missing input adds 0
  to the total input, and a record is \<open>outgoing\<close> only on behalf of an input whose parent
  was fetched and whose previous output carries the account's own script.
\<close>

theorem getTransfers_fee:
  assumes "getTransfers ec net address options = Inr rs" and "r \<in> set rs"
  shows "\<exists>myScript t.
           toOutputScript net address = Some myScript \<and>
           ec_getTransaction ec (t_txid r) = Some t \<and>
           t_fee r =
             (if totalInputOf ec t > 0 then Some (totalInputOf ec t - totalOutputOf t)
              else None) \<and>
           ((\<forall>i\<in>set (ins t). ec_getTransaction ec (in_hash i) = None) \<longrightarrow> t_fee r = None) \<and>
           (t_direction r = ''outgoing'' \<longrightarrow>
              (\<exists>i\<in>set (ins t). \<exists>p. ec_getTransaction ec (in_hash i) = Some p \<and>
                 in_index i < length (outs p) \<and>
                 out_script (outs p ! in_index i) = myScript))"
proof -
  from getTransfers_records[OF assms] obtain myScript t where
    m: "toOutputScript net address = Some myScript" and
    t: "ec_getTransaction ec (t_txid r) = Some t" and
    e: "emitted myScript (t_txid r) (outgoingOf ec myScript t)
          (feeOf (totalInputOf ec t) t) (outs t) r"
    by blast
  from e have fee: "t_fee r =
      (if totalInputOf ec t > 0 then Some (totalInputOf ec t - totalOutputOf t) else None)"
    by (simp add: emitted_def feeOf_eq)
  have none: "t_fee r = None" if "\<forall>i\<in>set (ins t). ec_getTransaction ec (in_hash i) = None"
    using fee totalInputOf_unfetched[OF that] by simp
  have og: "\<exists>i\<in>set (ins t). \<exists>p. ec_getTransaction ec (in_hash i) = Some p \<and>
                 in_index i < length (outs p) \<and> out_script (outs p ! in_index i) = myScript"
    if "t_direction r = ''outgoing''"
  proof -
    from e that have "outgoingOf ec myScript t"
      by (auto simp: emitted_def directionType_def split: if_splits)
    then show ?thesis by (rule outgoingOf_fetched)
  qed
  from m t fee none og show ?thesis by blast
qed

theorem getTransfers_fee_witness:
  "\<exists>myScript t.
     toOutputScript exCodec ''me'' = Some myScript \<and>
     ec_getTransaction exElectrum (t_txid exOutgoing) = Some t \<and>
     t_fee exOutgoing = Some (totalInputOf exElectrum t - totalOutputOf t) \<and>
     totalInputOf exElectrum t = 100000 \<and> totalOutputOf t = 99800"
proof -
  from getTransfers_fee[OF exTransfers_eval, of exOutgoing] obtain myScript t where
    m: "toOutputScript exCodec ''me'' = Some myScript" and
    t: "ec_getTransaction exElectrum (t_txid exOutgoing) = Some t" and
    f: "t_fee exOutgoing =
          (if totalInputOf exElectrum t > 0
           then Some (totalInputOf exElectrum t - totalOutputOf t) else None)"
    by auto
  from t have tv: "t = \<lparr> ins = [\<lparr> in_hash = ''f0'', in_index = 0 \<rparr>],
               outs = [\<lparr> out_value = 10000, out_script = ''0014bb'' \<rparr>,
                       \<lparr> out_value = 89800, out_script = ''0014aa'' \<rparr>] \<rparr>"
    by (simp add: exElectrum_def exOutgoing_def exTxs_def)
  have ti: "totalInputOf exElectrum t = 100000"
    by (simp add: tv totalInputOf_def resolvePrev_def exElectrum_def exTxs_def outAt_def
        inputValue_def)
  have to: "totalOutputOf t = 99800" by (simp add: tv totalOutputOf_def)
  from m t f ti to show ?thesis by auto
qed

text \<open>
  The claim as the specification words it fails: transaction \<open>t1\<close> of the example has
  two inputs, the parent \<open>zz\<close> of the second cannot be fetched, and the record of its
  output still carries a fee, computed from the first input alone.
\<close>

theorem getTransfers_fee_counterexample:
  "getTransfers exElectrum exCodec ''me'' noOptions = Inr [exIncoming, exOutgoing, exPartial] \<and>
   t_txid exPartial = ''t1'' \<and>
   ec_getTransaction exElectrum ''t1'' =
     Some \<lparr> ins = [\<lparr> in_hash = ''f1'', in_index = 0 \<rparr>, \<lparr> in_hash = ''zz'', in_index = 0 \<rparr>],
            outs = [\<lparr> out_value = 500, out_script = ''0014aa'' \<rparr>] \<rparr> \<and>
   ec_getTransaction exElectrum ''zz'' = None \<and>
   t_fee exPartial = Some 500"
  by (simp add: exTransfers_eval) (simp add: exPartial_def exElectrum_def exTxs_def)

text \<open>
  Claim C8. With the history and the own script at hand, \<open>getTransfers\<close> returns a list
  of at most \<open>limit\<close> records; a skip of \<open>k \<ge> 0\<close> gives what the call without skip
  gives on the history less its first \<open>k\<close> transactions, so a skipped transaction
  contributes none of its outputs; a limit of 0 gives the empty list, and so does a skip
  of at least the length of the history.
\<close>

theorem getTransfers_pagination:
  assumes "ec_getHistory ec address = Some history"
    and "toOutputScript net address = Some myScript"
  shows "(\<exists>rs. getTransfers ec net address options = Inr rs \<and>
               length rs \<le> nat (limitOf options)) \<and>
         (0 \<le> k \<longrightarrow>
            getTransfers ec net address (options\<lparr> opt_skip := Some k \<rparr>) =
            getTransfers
              (ec\<lparr> ec_getHistory := (ec_getHistory ec)(address \<mapsto> drop (nat k) history) \<rparr>)
              net address (options\<lparr> opt_skip := Some 0 \<rparr>)) \<and>
         (opt_limit options = Some 0 \<longrightarrow> getTransfers ec net address options = Inr []) \<and>
         (int (length history) \<le> k \<longrightarrow>
            getTransfers ec net address (options\<lparr> opt_skip := Some k \<rparr>) = Inr [])"
proof -
  have run: "getTransfers ec net address o' =
      Inr (historyLoop ec (fromOutputScript net) address myScript (directionOf o')
             (limitOf o') Map.empty (slice_from (skipOf o') history) [])" for o'
    using assms by (simp add: getTransfers_def)
  have cap: "\<exists>rs. getTransfers ec net address options = Inr rs \<and>
               length rs \<le> nat (limitOf options)"
    unfolding run by (simp add: historyLoop_length)
  have skip: "getTransfers ec net address (options\<lparr> opt_skip := Some k \<rparr>) =
            getTransfers
              (ec\<lparr> ec_getHistory := (ec_getHistory ec)(address \<mapsto> drop (nat k) history) \<rparr>)
              net address (options\<lparr> opt_skip := Some 0 \<rparr>)" if "0 \<le> k"
  proof -
    have "getTransfers
            (ec\<lparr> ec_getHistory := (ec_getHistory ec)(address \<mapsto> drop (nat k) history) \<rparr>)
            net address (options\<lparr> opt_skip := Some 0 \<rparr>) =
          Inr (historyLoop ec (fromOutputScript net) address myScript (directionOf options)
                 (limitOf options) Map.empty (drop (nat k) history) [])"
      using assms(2)
      by (simp add: getTransfers_def historyLoop_history_upd skipOf_def directionOf_def
          limitOf_def slice_from_def)
    moreover have "getTransfers ec net address (options\<lparr> opt_skip := Some k \<rparr>) =
          Inr (historyLoop ec (fromOutputScript net) address myScript (directionOf options)
                 (limitOf options) Map.empty (drop (nat k) history) [])"
      using that
      by (simp add: run slice_from_nonneg skipOf_def directionOf_def limitOf_def)
    ultimately show ?thesis by simp
  qed
  have zero: "getTransfers ec net address options = Inr []" if "opt_limit options = Some 0"
    unfolding run using that by (simp add: limitOf_def historyLoop_limit_reached)
  have past: "getTransfers ec net address (options\<lparr> opt_skip := Some k \<rparr>) = Inr []"
    if "int (length history) \<le> k"
  proof -
    from that have "0 \<le> k" by simp
    with that have "slice_from k history = []" by (simp add: slice_from_nonneg)
    then show ?thesis unfolding run by (simp add: skipOf_def)
  qed
  from cap skip zero past show ?thesis by blast
qed

theorem getTransfers_pagination_witness:
  "(\<exists>rs. getTransfers exElectrum exCodec ''me'' (noOptions\<lparr> opt_limit := Some 2 \<rparr>) = Inr rs \<and>
         length rs \<le> 2) \<and>
   getTransfers exElectrum exCodec ''me'' (noOptions\<lparr> opt_skip := Some 1 \<rparr>) =
   getTransfers
     (exElectrum\<lparr> ec_getHistory := (ec_getHistory exElectrum)(''me'' \<mapsto> drop 1 exHistory) \<rparr>)
     exCodec ''me'' (noOptions\<lparr> opt_skip := Some 0 \<rparr>) \<and>
   getTransfers exElectrum exCodec ''me'' (noOptions\<lparr> opt_limit := Some 0 \<rparr>) = Inr [] \<and>
   getTransfers exElectrum exCodec ''me'' (noOptions\<lparr> opt_skip := Some 3 \<rparr>) = Inr []"
proof -
  have h: "ec_getHistory exElectrum ''me'' = Some exHistory" by (simp add: exElectrum_def)
  have m: "toOutputScript exCodec ''me'' = Some ''0014aa''" by (simp add: exCodec_def)
  have l: "length exHistory = 3" by (simp add: exHistory_def)
  from getTransfers_pagination[OF h m, of "noOptions\<lparr> opt_limit := Some 2 \<rparr>" 1]
  have a: "\<exists>rs. getTransfers exElectrum exCodec ''me'' (noOptions\<lparr> opt_limit := Some 2 \<rparr>) = Inr rs \<and>
         length rs \<le> 2"
    by (simp add: limitOf_def)
  from getTransfers_pagination[OF h m, of noOptions 1]
  have b: "getTransfers exElectrum exCodec ''me'' (noOptions\<lparr> opt_skip := Some 1 \<rparr>) =
     getTransfers
       (exElectrum\<lparr> ec_getHistory := (ec_getHistory exElectrum)(''me'' \<mapsto> drop 1 exHistory) \<rparr>)
       exCodec ''me'' (noOptions\<lparr> opt_skip := Some 0 \<rparr>)"
    by simp
  from getTransfers_pagination[OF h m, of "noOptions\<lparr> opt_limit := Some 0 \<rparr>" 0]
  have c: "getTransfers exElectrum exCodec ''me'' (noOptions\<lparr> opt_limit := Some 0 \<rparr>) = Inr []"
    by simp
  from getTransfers_pagination[OF h m, of noOptions 3]
  have "int (length exHistory) \<le> 3 \<longrightarrow>
     getTransfers exElectrum exCodec ''me'' (noOptions\<lparr> opt_skip := Some 3 \<rparr>) = Inr []"
    by blast
  with l
  have d: "getTransfers exElectrum exCodec ''me'' (noOptions\<lparr> opt_skip := Some 3 \<rparr>) = Inr []"
    by simp
  from a b c d show ?thesis by blast
qed


section \<open>The transaction builder\<close>

lemma foldl_utxo_value:
  "foldl (\<lambda>sum u. sum + utxo_value u) z xs = z + sum_list (map utxo_value xs)"
  by (induction xs arbitrary: z) simp_all

lemma addInputs_values:
  "addInputs c s a utxoSet = Inr inputs \<Longrightarrow>
   map (\<lambda>i. out_value (pi_witnessUtxo i)) inputs = map utxo_value utxoSet"
  by (auto simp: addInputs_def comp_def split: if_splits option.splits)

lemma map_zip_left:
  assumes "\<And>x y. f (g x y) = h x" and "length xs = length ys"
  shows "map (\<lambda>(x, y). f (g x y)) (zip xs ys) = map h xs"
  using assms(2) by (induction xs ys rule: list_induct2) (simp_all add: assms(1))

lemma signAndFinalize_keeps:
  assumes "signAndFinalize lib s a p = Inr q"
  shows "p_outputs q = p_outputs p"
    and "map pi_witnessUtxo (p_inputs q) = map pi_witnessUtxo (p_inputs p)"
proof -
  show "p_outputs q = p_outputs p"
    using assms
    by (auto simp: signAndFinalize_def Let_def split: if_splits option.splits)
  show "map pi_witnessUtxo (p_inputs q) = map pi_witnessUtxo (p_inputs p)"
  proof (cases "p_inputs p = []")
    case True
    with assms show ?thesis by (simp add: signAndFinalize_def)
  next
    case False
    with assms obtain n where n: "a_bip32 a = Some n"
      by (auto simp: signAndFinalize_def split: option.splits)
    let ?ws = "map (signInputHD lib (s ! node_D n) (s ! node_chainCode n) p)
                 [0..<length (p_inputs p)]"
    from assms False n
    have q: "p_inputs q =
               map (\<lambda>(i, w). i\<lparr> pi_finalScriptWitness := w \<rparr>) (zip (p_inputs p) ?ws)"
      by (auto simp: signAndFinalize_def Let_def split: if_splits)
    have "map pi_witnessUtxo (p_inputs q) =
            map (\<lambda>(i, w). pi_witnessUtxo (i\<lparr> pi_finalScriptWitness := w \<rparr>))
              (zip (p_inputs p) ?ws)"
      by (simp add: q comp_def case_prod_unfold)
    also have "\<dots> = map pi_witnessUtxo (p_inputs p)"
      by (rule map_zip_left) simp_all
    finally show ?thesis .
  qed
qed

lemma createPsbt_shape:
  assumes "createPsbt lib c s a utxoSet amount recipient totalInput fee = Inr p"
  shows "inputSum p = sum_list (map utxo_value utxoSet)"
    and "addOutputs lib a amount recipient totalInput fee = Inr (p_outputs p)"
proof -
  from assms obtain inputs outputs where
    i: "addInputs c s a utxoSet = Inr inputs" and
    o: "addOutputs lib a amount recipient totalInput fee = Inr outputs" and
    f: "signAndFinalize lib s a \<lparr> p_inputs = inputs, p_outputs = outputs \<rparr> = Inr p"
    by (auto simp: createPsbt_def split: sum.splits)
  from signAndFinalize_keeps[OF f]
  have po: "p_outputs p = outputs" and pi: "map pi_witnessUtxo (p_inputs p) = map pi_witnessUtxo inputs"
    by simp_all
  from po o show "addOutputs lib a amount recipient totalInput fee = Inr (p_outputs p)" by simp
  have "map (\<lambda>i. out_value (pi_witnessUtxo i)) (p_inputs p) =
        map out_value (map pi_witnessUtxo (p_inputs p))"
    by (simp add: comp_def)
  also have "\<dots> = map (\<lambda>i. out_value (pi_witnessUtxo i)) inputs"
    by (simp add: pi comp_def)
  also have "\<dots> = map utxo_value utxoSet" by (rule addInputs_values[OF i])
  finally show "inputSum p = sum_list (map utxo_value utxoSet)" by (simp add: inputSum_def)
qed

lemma addOutputs_cases:
  assumes "addOutputs lib a amount recipient totalInput fee = Inr os"
  obtains (change) toScript ownScript where
      "toOutputScript lib recipient = Some toScript"
      "toOutputScript lib (a_address a) = Some ownScript"
      "totalInput - amount - fee > 546"
      "os = [\<lparr> out_value = amount, out_script = toScript \<rparr>,
             \<lparr> out_value = totalInput - amount - fee, out_script = ownScript \<rparr>]"
  | (absorbed) toScript where
      "toOutputScript lib recipient = Some toScript"
      "0 \<le> totalInput - amount - fee" "totalInput - amount - fee \<le> 546"
      "os = [\<lparr> out_value = amount, out_script = toScript \<rparr>]"
  using assms
  by (auto simp: addOutputs_def DUST_LIMIT_def Let_def split: option.splits if_splits)

lemma getRawTransaction_built:
  assumes "getRawTransaction lib c s a utxoSet amount recipient feeRate = Inr r"
  obtains dummy p where
    "546 < amount"
    "createPsbt lib c s a utxoSet amount recipient (sum_list (map utxo_value utxoSet)) 0 = Inr dummy"
    "rt_fee r = estimatedFeeOf feeRate (virtualSize lib dummy)"
    "createPsbt lib c s a utxoSet amount recipient (sum_list (map utxo_value utxoSet)) (rt_fee r) = Inr p"
    "rt_txid r = getId lib p" "rt_hex r = toHex lib p"
  using assms
  by (auto simp: getRawTransaction_def DUST_LIMIT_def Let_def foldl_utxo_value
      split: if_splits sum.splits)

lemma getTransaction_built:
  assumes "getTransaction lib c ec s a recipient amount = Inr r"
  obtains utxoSet rate where
    "getUtxos ec amount (a_address a) = Inr utxoSet"
    "ec_getFeeEstimateInSatsPerVb ec = Some rate"
    "getRawTransaction lib c s a utxoSet amount recipient (max 1 rate) = Inr r"
proof -
  from assms obtain utxoSet rate where
    u: "getUtxos ec amount (a_address a) = Inr utxoSet" and
    f: "ec_getFeeEstimateInSatsPerVb ec = Some rate" and
    g: "getRawTransaction lib c s a utxoSet amount recipient (if rate < 1 then 1 else rate) = Inr r"
    by (auto simp: getTransaction_def Let_def split: sum.splits option.splits)
  have "(if rate < 1 then 1 else rate) = max 1 rate" by (simp add: max_def)
  with g have "getRawTransaction lib c s a utxoSet amount recipient (max 1 rate) = Inr r" by simp
  with u f that show ?thesis by blast
qed


text \<open>
  Claim C5. A transaction that \<open>_getTransaction\<close> builds (the one whose id and hex it
  returns) has the recipient output of \<open>amount\<close> first. With
  \<open>change = sum(inputs) - amount - fee\<close>, which is never negative, a second output
  follows exactly when \<open>change > 546\<close>: it pays the account's own address and its value
  is \<open>change\<close>, so that the transaction pays the fee and no more. Otherwise the recipient
  output is the only one and the transaction pays \<open>fee + change\<close>: the change is
  absorbed into the fee.
\<close>

theorem built_transaction_outputs:
  assumes "getTransaction lib c ec s a recipient amount = Inr r"
  shows "\<exists>p toScript.
           rt_txid r = getId lib p \<and> rt_hex r = toHex lib p \<and>
           toOutputScript lib recipient = Some toScript \<and>
           0 \<le> inputSum p - amount - rt_fee r \<and>
           (if inputSum p - amount - rt_fee r > 546
            then \<exists>ownScript.
                   toOutputScript lib (a_address a) = Some ownScript \<and>
                   p_outputs p =
                     [\<lparr> out_value = amount, out_script = toScript \<rparr>,
                      \<lparr> out_value = inputSum p - amount - rt_fee r,
                        out_script = ownScript \<rparr>] \<and>
                   inputSum p - outputSum p = rt_fee r
            else p_outputs p = [\<lparr> out_value = amount, out_script = toScript \<rparr>] \<and>
                 inputSum p - outputSum p = rt_fee r + (inputSum p - amount - rt_fee r))"
proof -
  from assms obtain utxoSet rate where
    g: "getRawTransaction lib c s a utxoSet amount recipient (max 1 rate) = Inr r"
    by (rule getTransaction_built)
  from g obtain p where
    p: "createPsbt lib c s a utxoSet amount recipient (sum_list (map utxo_value utxoSet))
          (rt_fee r) = Inr p" and
    id: "rt_txid r = getId lib p" and hex: "rt_hex r = toHex lib p"
    by (rule getRawTransaction_built)
  from createPsbt_shape[OF p]
  have sum: "inputSum p = sum_list (map utxo_value utxoSet)" and
    os: "addOutputs lib a amount recipient (inputSum p) (rt_fee r) = Inr (p_outputs p)"
    by simp_all
  from os show ?thesis
  proof (cases rule: addOutputs_cases)
    case (change toScript ownScript)
    then have "inputSum p - outputSum p = rt_fee r" by (simp add: outputSum_def)
    with change id hex show ?thesis by auto
  next
    case (absorbed toScript)
    then have "inputSum p - outputSum p = rt_fee r + (inputSum p - amount - rt_fee r)"
      by (simp add: outputSum_def)
    with absorbed id hex show ?thesis by auto
  qed
qed

lemma exSend_eval:
  "getTransaction exLib exCrypto exWallet exStore exAccount ''you'' 10000 = Inr exRaw"
  by (simp add: getTransaction_def getUtxos_def exWallet_def exUnspent_def exAccount_def
      outAt_def utxo.extend_def getRawTransaction_def DUST_LIMIT_def createPsbt_def
      addInputs_def addOutputs_def signAndFinalize_def exLib_def exCodec_def
      estimatedFeeOf_def Let_def upt_rec exRaw_def)

theorem built_transaction_outputs_witness:
  "\<exists>p toScript.
     rt_txid exRaw = getId exLib p \<and> rt_hex exRaw = toHex exLib p \<and>
     toOutputScript exLib ''you'' = Some toScript \<and>
     0 \<le> inputSum p - 10000 - rt_fee exRaw \<and>
     (if inputSum p - 10000 - rt_fee exRaw > 546
      then \<exists>ownScript.
             toOutputScript exLib (a_address exAccount) = Some ownScript \<and>
             p_outputs p =
               [\<lparr> out_value = 10000, out_script = toScript \<rparr>,
                \<lparr> out_value = inputSum p - 10000 - rt_fee exRaw, out_script = ownScript \<rparr>] \<and>
             inputSum p - outputSum p = rt_fee exRaw
      else p_outputs p = [\<lparr> out_value = 10000, out_script = toScript \<rparr>] \<and>
           inputSum p - outputSum p = rt_fee exRaw + (inputSum p - 10000 - rt_fee exRaw))"
  by (rule built_transaction_outputs[OF exSend_eval])

text \<open>
  Claim C6. When \<open>sendTransaction\<close> or \<open>quoteSendTransaction\<close> succeeds, the fee it
  returns is \<open>max(141, ceil(vsize * rate))\<close>, where \<open>vsize\<close> is the virtual size of the
  provisional transaction signed with fee 0 over the gathered UTXOs and \<open>rate\<close> is the
  server's estimate raised to at least 1.
\<close>

theorem transaction_fee:
  assumes "ec_getFeeEstimateInSatsPerVb ec = Some estimate"
  shows "(\<forall>res. sendTransaction lib c ec s a to amount = Inr res \<longrightarrow>
            (\<exists>utxoSet dummy.
               getUtxos ec amount (a_address a) = Inr utxoSet \<and>
               createPsbt lib c s a utxoSet amount to (sum_list (map utxo_value utxoSet)) 0 =
                 Inr dummy \<and>
               tr_fee res = max 141 \<lceil>of_nat (virtualSize lib dummy) * max 1 estimate\<rceil>)) \<and>
         (\<forall>fee. quoteSendTransaction lib c ec s a to amount = Inr fee \<longrightarrow>
            (\<exists>utxoSet dummy.
               getUtxos ec amount (a_address a) = Inr utxoSet \<and>
               createPsbt lib c s a utxoSet amount to (sum_list (map utxo_value utxoSet)) 0 =
                 Inr dummy \<and>
               fee = max 141 \<lceil>of_nat (virtualSize lib dummy) * max 1 estimate\<rceil>))"
proof -
  have built: "\<exists>utxoSet dummy.
               getUtxos ec amount (a_address a) = Inr utxoSet \<and>
               createPsbt lib c s a utxoSet amount to (sum_list (map utxo_value utxoSet)) 0 =
                 Inr dummy \<and>
               rt_fee r = max 141 \<lceil>of_nat (virtualSize lib dummy) * max 1 estimate\<rceil>"
    if "getTransaction lib c ec s a to amount = Inr r" for r
  proof -
    from that obtain utxoSet rate where
      u: "getUtxos ec amount (a_address a) = Inr utxoSet" and
      f: "ec_getFeeEstimateInSatsPerVb ec = Some rate" and
      g: "getRawTransaction lib c s a utxoSet amount to (max 1 rate) = Inr r"
      by (rule getTransaction_built)
    from f assms have rate: "rate = estimate" by simp
    from g obtain dummy where
      d: "createPsbt lib c s a utxoSet amount to (sum_list (map utxo_value utxoSet)) 0 =
            Inr dummy" and
      fee: "rt_fee r = estimatedFeeOf (max 1 rate) (virtualSize lib dummy)"
      by (rule getRawTransaction_built)
    from fee rate
    have "rt_fee r = max 141 \<lceil>of_nat (virtualSize lib dummy) * max 1 estimate\<rceil>"
      by (simp add: estimatedFeeOf_def max.commute mult.commute)
    with u d show ?thesis by blast
  qed
  have send: "\<exists>r. getTransaction lib c ec s a to amount = Inr r \<and> tr_fee res = rt_fee r"
    if "sendTransaction lib c ec s a to amount = Inr res" for res
    using that by (auto simp: sendTransaction_def split: sum.splits option.splits)
  have quote: "\<exists>r. getTransaction lib c ec s a to amount = Inr r \<and> fee = rt_fee r"
    if "quoteSendTransaction lib c ec s a to amount = Inr fee" for fee
    using that by (auto simp: quoteSendTransaction_def split: sum.splits)
  show ?thesis
  proof (intro conjI allI impI)
    fix res assume "sendTransaction lib c ec s a to amount = Inr res"
    from send[OF this] obtain r where
      "getTransaction lib c ec s a to amount = Inr r" "tr_fee res = rt_fee r" by blast
    with built[of r] show "\<exists>utxoSet dummy.
               getUtxos ec amount (a_address a) = Inr utxoSet \<and>
               createPsbt lib c s a utxoSet amount to (sum_list (map utxo_value utxoSet)) 0 =
                 Inr dummy \<and>
               tr_fee res = max 141 \<lceil>of_nat (virtualSize lib dummy) * max 1 estimate\<rceil>"
      by simp
  next
    fix fee assume "quoteSendTransaction lib c ec s a to amount = Inr fee"
    from quote[OF this] obtain r where
      "getTransaction lib c ec s a to amount = Inr r" "fee = rt_fee r" by blast
    with built[of r] show "\<exists>utxoSet dummy.
               getUtxos ec amount (a_address a) = Inr utxoSet \<and>
               createPsbt lib c s a utxoSet amount to (sum_list (map utxo_value utxoSet)) 0 =
                 Inr dummy \<and>
               fee = max 141 \<lceil>of_nat (virtualSize lib dummy) * max 1 estimate\<rceil>"
      by simp
  qed
qed

lemma exSendTransaction_eval:
  "sendTransaction exLib exCrypto exWallet exStore exAccount ''you'' 10000 =
     Inr \<lparr> tr_hash = ''id'', tr_fee = 208 \<rparr>"
  by (simp add: sendTransaction_def exSend_eval) (simp add: exWallet_def exRaw_def)

theorem transaction_fee_witness:
  "\<exists>utxoSet dummy.
     getUtxos exWallet 10000 (a_address exAccount) = Inr utxoSet \<and>
     createPsbt exLib exCrypto exStore exAccount utxoSet 10000 ''you''
       (sum_list (map utxo_value utxoSet)) 0 = Inr dummy \<and>
     (208::int) = max 141 \<lceil>of_nat (virtualSize exLib dummy) * max 1 (1::rat)\<rceil>"
proof -
  have e: "ec_getFeeEstimateInSatsPerVb exWallet = Some 1" by (simp add: exWallet_def)
  from transaction_fee[OF e, of exLib exCrypto exStore exAccount "''you''" 10000]
    exSendTransaction_eval
  show ?thesis by simp
qed


section \<open>The fee estimate of the read-only account widens its selection\<close>

lemma extractTransaction_Inr:
  "extractTransaction p = Inr q \<Longrightarrow> q = p \<and> outputSum p \<le> inputSum p"
  by (simp add: extractTransaction_def split: if_splits)

text \<open>The account's builder extracts its transactions too, and there the fee check
  has nothing to refuse: \<open>createPsbt\<close> has thrown already when the change is
  negative.\<close>

lemma createPsbt_extractable:
  assumes "createPsbt lib c s a utxoSet amount recipient (sum_list (map utxo_value utxoSet))
             fee = Inr p"
    and "0 \<le> fee"
  shows "extractTransaction p = Inr p"
proof -
  from createPsbt_shape[OF assms(1)]
  have i: "inputSum p = sum_list (map utxo_value utxoSet)" and
    o: "addOutputs lib a amount recipient (sum_list (map utxo_value utxoSet)) fee =
          Inr (p_outputs p)"
    by simp_all
  from o have "outputSum p \<le> inputSum p"
    by (rule addOutputs_cases) (use i assms(2) in \<open>simp_all add: outputSum_def\<close>)
  then show ?thesis by (simp add: extractTransaction_def)
qed

lemma provisionalPsbt_sums:
  "inputSum (provisionalPsbt fromScript toScript value selected tot) =
     sum_list (map utxo_value selected)"
  "outputSum (provisionalPsbt fromScript toScript value selected tot) =
     (if tot - value > 546 then tot else value)"
  by (simp_all add: provisionalPsbt_def inputSum_def outputSum_def comp_def DUST_LIMIT_def)

text \<open>A selection that holds less than the amount ends the estimate with the
  library's error; the loop goes on to a further output only for the sake of the fee.\<close>

lemma extractTransaction_provisional:
  "tot = sum_list (map utxo_value selected) \<Longrightarrow>
   extractTransaction (provisionalPsbt fromScript toScript value selected tot) =
     (if tot < value then Inl OutputsExceedInputs
      else Inr (provisionalPsbt fromScript toScript value selected tot))"
  by (auto simp: extractTransaction_def provisionalPsbt_sums)

lemma estimateLoop_exhausted:
  "estimateLoop lib js fromScript toScript value feeRate rest selected tot fee = Inr (T, F) \<Longrightarrow>
   T < value + F \<Longrightarrow> rest \<noteq> [] \<Longrightarrow>
   T = tot + sum_list (map utxo_value rest) \<and>
   F = max (ceilTimes js (virtualSize lib
              (provisionalPsbt fromScript toScript value (selected @ rest) T)) feeRate) 141"
proof (induction rest arbitrary: selected tot fee)
  case Nil
  then show ?case by simp
next
  case (Cons u rest)
  let ?tot1 = "tot + utxo_value u"
  let ?p = "provisionalPsbt fromScript toScript value (selected @ [u]) ?tot1"
  let ?fee1 = "max (ceilTimes js (virtualSize lib ?p) feeRate) 141"
  from Cons.prems(1) have ex: "extractTransaction ?p = Inr ?p"
    by (auto simp: Let_def dest: extractTransaction_Inr split: sum.splits)
  show ?case
  proof (cases "?tot1 \<ge> value + ?fee1")
    case True
    with Cons.prems(1) ex have "(T, F) = (?tot1, ?fee1)" by (auto simp: Let_def)
    then have "T = ?tot1" "F = ?fee1" by simp_all
    with True have "value + F \<le> T" by simp
    with Cons.prems(2) show ?thesis by simp
  next
    case False
    with Cons.prems(1) ex
    have rec: "estimateLoop lib js fromScript toScript value feeRate rest (selected @ [u])
                 ?tot1 ?fee1 = Inr (T, F)"
      by (simp add: Let_def)
    show ?thesis
    proof (cases "rest = []")
      case True
      with rec show ?thesis by auto
    next
      case False
      from Cons.IH[OF rec Cons.prems(2) False] show ?thesis by simp
    qed
  qed
qed

lemma estimateFee_insufficient:
  assumes "estimateFee lib js ec fromAddress to value = Inl InsufficientBalance"
  shows "\<exists>rate utxos fromScript toScript.
           ec_getFeeEstimateInSatsPerVb ec = Some rate \<and>
           ec_getUnspent ec fromAddress = Some utxos \<and>
           toOutputScript lib fromAddress = Some fromScript \<and>
           toOutputScript lib to = Some toScript \<and>
           sum_list (map utxo_value utxos) <
             value + max (ceilTimes js (virtualSize lib
                            (provisionalPsbt fromScript toScript value utxos
                               (sum_list (map utxo_value utxos))))
                          (max (toNumber js rate) 1)) 141"
proof -
  have no: "e \<noteq> InsufficientBalance"
    if "estimateLoop lib js fs ts value fr rest selected tot fee = Inl e"
    for fs ts fr rest selected tot fee e
    using that
  proof (induction rest arbitrary: selected tot fee)
    case Nil
    then show ?case by simp
  next
    case (Cons u rest)
    then show ?case
      by (auto simp: Let_def extractTransaction_def split: sum.splits if_splits)
  qed
  from assms obtain rate utxos fromScript toScript where
    r: "ec_getFeeEstimateInSatsPerVb ec = Some rate" and
    u: "ec_getUnspent ec fromAddress = Some utxos" "utxos \<noteq> []" and
    f: "toOutputScript lib fromAddress = Some fromScript" and
    t: "toOutputScript lib to = Some toScript" and
    c: "(case estimateLoop lib js fromScript toScript value (max (toNumber js rate) 1)
                utxos [] 0 0 of
           Inl e \<Rightarrow> Inl e
         | Inr (totalIn, fee) \<Rightarrow>
             if totalIn < value + fee then Inl InsufficientBalance else Inr fee) =
        Inl InsufficientBalance"
    by (auto simp: estimateFee_def Let_def split: option.splits if_splits)
  from c no obtain T F where
    l: "estimateLoop lib js fromScript toScript value (max (toNumber js rate) 1) utxos [] 0 0 =
          Inr (T, F)" and
    lt: "T < value + F"
    by (auto split: sum.splits prod.splits if_splits)
  from estimateLoop_exhausted[OF l lt u(2)]
  have "T = sum_list (map utxo_value utxos)"
    and "F = max (ceilTimes js (virtualSize lib
                 (provisionalPsbt fromScript toScript value utxos T))
                 (max (toNumber js rate) 1)) 141"
    by simp_all
  with lt r u(1) f t show ?thesis by auto
qed

text \<open>The account's builder, in contrast, needs the fee inside what \<open>_getUtxos\<close>
  selected by the amount alone: when the selection falls short of the amount plus the
  least fee, the call fails whatever else is unspent.\<close>

lemma getTransaction_selection_short:
  assumes "getUtxos ec amount (a_address a) = Inr utxoSet"
    and "sum_list (map utxo_value utxoSet) < amount + 141"
  shows "\<exists>e. getTransaction lib c ec s a to amount = Inl e"
proof (cases "getTransaction lib c ec s a to amount")
  case (Inl e)
  then show ?thesis by blast
next
  case (Inr r)
  then obtain utxoSet' rate where
    u: "getUtxos ec amount (a_address a) = Inr utxoSet'" and
    g: "getRawTransaction lib c s a utxoSet' amount to (max 1 rate) = Inr r"
    by (rule getTransaction_built)
  from u assms(1) have same: "utxoSet' = utxoSet" by simp
  from g obtain dummy p where
    fee: "rt_fee r = estimatedFeeOf (max 1 rate) (virtualSize lib dummy)" and
    p: "createPsbt lib c s a utxoSet' amount to (sum_list (map utxo_value utxoSet'))
          (rt_fee r) = Inr p"
    by (rule getRawTransaction_built)
  from fee have "141 \<le> rt_fee r" by (simp add: estimatedFeeOf_def)
  moreover from createPsbt_shape(2)[OF p]
  have "0 \<le> sum_list (map utxo_value utxoSet') - amount - rt_fee r"
    by (rule addOutputs_cases) simp_all
  ultimately have False using assms(2) same by simp
  then show ?thesis ..
qed

text \<open>
  Claim C1 at a concrete wallet: two unspent outputs of 1000 and 100000 satoshis, an
  amount of 1000 and a rate of 1 sat/vB. \<open>_getUtxos\<close> stops at the first output, which
  covers the amount alone, and \<open>_getRawTransaction\<close> never goes back for the second:
  the send and the quote of the account fail with an insufficient balance, although
  both outputs together cover amount and fee, as the estimate of the read-only account
  finds by selecting the second output too.
\<close>

theorem sendTransaction_no_expansion:
  "sendTransaction exLib exCrypto exWallet exStore exAccount ''you'' 1000 =
     Inl InsufficientBalance \<and>
   quoteSendTransaction exLib exCrypto exWallet exStore exAccount ''you'' 1000 =
     Inl InsufficientBalance \<and>
   ec_getUnspent exWallet (a_address exAccount) = Some exUnspent \<and>
   map utxo_value exUnspent = [1000, 100000] \<and>
   map utxo_value (projr (getUtxos exWallet 1000 (a_address exAccount))) = [1000] \<and>
   quoteSendTransactionReadOnly exLib exNumber exWallet (a_address exAccount) ''you'' 1000 =
     Inr 208"
proof -
  have g: "getTransaction exLib exCrypto exWallet exStore exAccount ''you'' 1000 =
             Inl InsufficientBalance"
    by (simp add: getTransaction_def getUtxos_def exWallet_def exUnspent_def exAccount_def
        outAt_def utxo.extend_def getRawTransaction_def DUST_LIMIT_def createPsbt_def
        addInputs_def addOutputs_def signAndFinalize_def exLib_def exCodec_def
        estimatedFeeOf_def Let_def upt_rec)
  have u: "map utxo_value (projr (getUtxos exWallet 1000 (a_address exAccount))) = [1000]"
    by (simp add: getUtxos_def exWallet_def exUnspent_def exAccount_def outAt_def
        utxo.extend_def)
  have q: "quoteSendTransactionReadOnly exLib exNumber exWallet (a_address exAccount) ''you''
             1000 = Inr 208"
    by (simp add: quoteSendTransactionReadOnly_def estimateFee_def exWallet_def exUnspent_def
        exAccount_def exLib_def exCodec_def exNumber_def provisionalPsbt_def
        extractTransaction_def inputSum_def outputSum_def DUST_LIMIT_def Let_def)
  show ?thesis
    using g u q
    by (simp add: sendTransaction_def quoteSendTransaction_def)
      (simp add: exWallet_def exAccount_def exUnspent_def)
qed


section \<open>The account: what the constructor builds\<close>

text \<open>The buffers the constructor allocates, in order, and the fields that point to
  them.\<close>

lemma WalletAccountBtc_built:
  assumes "WalletAccountBtc c s0 seedBuffer path = Inr (s, a)"
  obtains childKey childChainCode where
    "isPrivate c (masterKey c seedBuffer)"
    "derivePath c (masterKey c seedBuffer, masterChainCode c seedBuffer)
       (BIP_84_BTC_DERIVATION_PATH_PREFIX @ ''/'' @ path) = Some (childKey, childChainCode)"
    "s = s0 @ [hmac_sha512 c (fromUtf8 ''Bitcoin seed'') seedBuffer,
               masterKey c seedBuffer, masterChainCode c seedBuffer,
               masterKey c seedBuffer, masterChainCode c seedBuffer,
               pointFromScalar c (masterKey c seedBuffer), pointFromScalar c childKey]"
    "a = \<lparr> a_electrumConnected = True,
           a_masterKeyAndChainCodeBuffer = Some (length s0),
           a_privateKeyBuffer = Some (length s0 + 1),
           a_chainCodeBuffer = Some (length s0 + 2),
           a_bip32 = Some \<lparr> node_D = length s0 + 3, node_Q = length s0 + 5,
                            node_chainCode = length s0 + 4 \<rparr>,
           a_path = BIP_84_BTC_DERIVATION_PATH_PREFIX @ ''/'' @ path,
           a_address = p2wpkhAddress c (pointFromScalar c childKey),
           a_keyPair = \<lparr> publicKey = length s0 + 6, privateKey = length s0 + 1 \<rparr> \<rparr>"
  using assms
  by (auto simp: WalletAccountBtc_def alloc_def Let_def masterKey_def masterChainCode_def
      split: if_splits option.splits prod.splits)

lemma exAccount_built: "WalletAccountBtc exCrypto [] exSeed ''0'/0/0'' = Inr (exStore, exAccount)"
  by (simp add: WalletAccountBtc_def alloc_def Let_def exCrypto_def exSeed_def exStore_def
      exAccount_def fromUtf8_def BIP_84_BTC_DERIVATION_PATH_PREFIX_def)


section \<open>The account: signing, disposal and the key pair\<close>

lemma collectUtxos_nonempty:
  "collectUtxos ec amount unspent collected tot = Inr cs \<Longrightarrow>
   unspent \<noteq> [] \<or> collected \<noteq> [] \<Longrightarrow> cs \<noteq> []"
proof (induction unspent arbitrary: collected tot)
  case Nil
  then show ?case by simp
next
  case (Cons u rest)
  from Cons.prems(1) obtain t v where
    t: "ec_getTransaction ec (tx_hash u) = Some t" and v: "outAt t (tx_pos u) = Some v"
    by (auto split: option.splits)
  let ?c1 = "collected @ [utxo.extend u \<lparr> vout = v \<rparr>]"
  show ?case
  proof (cases "tot + utxo_value u \<ge> amount")
    case True
    with Cons.prems(1) t v have "cs = ?c1" by (simp add: Let_def)
    then show ?thesis by simp
  next
    case False
    with Cons.prems(1) t v
    have "collectUtxos ec amount rest ?c1 (tot + utxo_value u) = Inr cs" by (simp add: Let_def)
    from Cons.IH[OF this] show ?thesis by simp
  qed
qed

lemma getTransaction_needs_node:
  assumes "a_bip32 a = None"
  shows "\<exists>e. getTransaction lib c ec s a to amount = Inl e"
proof (cases "getTransaction lib c ec s a to amount")
  case (Inl e)
  then show ?thesis by blast
next
  case (Inr r)
  then obtain utxoSet rate where
    u: "getUtxos ec amount (a_address a) = Inr utxoSet" and
    g: "getRawTransaction lib c s a utxoSet amount to (max 1 rate) = Inr r"
    by (rule getTransaction_built)
  from u have ne: "utxoSet \<noteq> []"
    by (auto simp: getUtxos_def split: option.splits if_splits dest: collectUtxos_nonempty)
  from g obtain dummy where
    "createPsbt lib c s a utxoSet amount to (sum_list (map utxo_value utxoSet)) 0 = Inr dummy"
    by (rule getRawTransaction_built)
  with ne assms have False
    by (simp add: createPsbt_def addInputs_def)
  then show ?thesis ..
qed

lemma dispose_done:
  assumes "dispose s a = (None, s', a')"
  obtains r1 r2 r3 n where
    "a_privateKeyBuffer a = Some r1" "a_chainCodeBuffer a = Some r2"
    "a_masterKeyAndChainCodeBuffer a = Some r3" "a_bip32 a = Some n"
    "s' = memzero (memzero (memzero (memzero (memzero (memzero s r1) r2) r3)
             (privateKey (a_keyPair a))) (node_Q n)) (node_D n)"
    "a' = a\<lparr> a_bip32 := None, a_privateKeyBuffer := None, a_chainCodeBuffer := None,
              a_masterKeyAndChainCodeBuffer := None, a_electrumConnected := False \<rparr>"
  using assms
  by (auto simp: dispose_def Let_def split: option.splits)

text \<open>
  Claim C2, as the code has it. \<open>sign\<close> signs the SHA-256 of the message with the key of
  \<open>this._bip32\<close>, and that node is the master node of the seed: the private key is the
  first half of the HMAC of the seed, whatever the account's path; the child derived at
  the path gives the public key and the address only. With the library's sign and verify
  inverse to each other on that key, \<open>verify\<close> accepts what \<open>sign\<close> returns.
\<close>

theorem sign_under_master_key:
  assumes "WalletAccountBtc c s0 seedBuffer path = Inr (s, a)"
  shows "sign c s a message =
           Inr (toBase64 c (ecdsaSign c (masterKey c seedBuffer)
                  (sha256 c (fromUtf8 message)))) \<and>
         (fromBase64 c (toBase64 c (ecdsaSign c (masterKey c seedBuffer)
              (sha256 c (fromUtf8 message)))) =
            ecdsaSign c (masterKey c seedBuffer) (sha256 c (fromUtf8 message)) \<and>
          ecdsaVerify c (sha256 c (fromUtf8 message))
            (pointFromScalar c (masterKey c seedBuffer))
            (ecdsaSign c (masterKey c seedBuffer) (sha256 c (fromUtf8 message))) = Some True
          \<longrightarrow> verify c s a message (projr (sign c s a message)) = Inr True)"
proof -
  from assms obtain childKey childChainCode where
    s: "s = s0 @ [hmac_sha512 c (fromUtf8 ''Bitcoin seed'') seedBuffer,
               masterKey c seedBuffer, masterChainCode c seedBuffer,
               masterKey c seedBuffer, masterChainCode c seedBuffer,
               pointFromScalar c (masterKey c seedBuffer), pointFromScalar c childKey]" and
    n: "a_bip32 a = Some \<lparr> node_D = length s0 + 3, node_Q = length s0 + 5,
                            node_chainCode = length s0 + 4 \<rparr>"
    by (rule WalletAccountBtc_built) simp
  have d: "s ! (length s0 + 3) = masterKey c seedBuffer"
    and q: "s ! (length s0 + 5) = pointFromScalar c (masterKey c seedBuffer)"
    by (simp_all add: s nth_append)
  have sg: "sign c s a message =
           Inr (toBase64 c (ecdsaSign c (masterKey c seedBuffer)
                  (sha256 c (fromUtf8 message))))"
    by (simp add: sign_def n d)
  show ?thesis
    by (simp add: sg) (simp add: verify_def n q)
qed

theorem sign_under_master_key_witness:
  "sign exCrypto exStore exAccount ''hello'' =
     Inr (toBase64 exCrypto (ecdsaSign exCrypto (masterKey exCrypto exSeed)
            (sha256 exCrypto (fromUtf8 ''hello'')))) \<and>
   verify exCrypto exStore exAccount ''hello''
     (projr (sign exCrypto exStore exAccount ''hello'')) = Inr True"
proof -
  have r: "fromBase64 exCrypto (toBase64 exCrypto (ecdsaSign exCrypto (masterKey exCrypto exSeed)
              (sha256 exCrypto (fromUtf8 ''hello'')))) =
            ecdsaSign exCrypto (masterKey exCrypto exSeed) (sha256 exCrypto (fromUtf8 ''hello''))"
    by (simp add: exCrypto_def masterKey_def exSeed_def fromUtf8_def)
  have v: "ecdsaVerify exCrypto (sha256 exCrypto (fromUtf8 ''hello''))
            (pointFromScalar exCrypto (masterKey exCrypto exSeed))
            (ecdsaSign exCrypto (masterKey exCrypto exSeed)
               (sha256 exCrypto (fromUtf8 ''hello''))) = Some True"
    by (simp add: exCrypto_def masterKey_def exSeed_def fromUtf8_def)
  from sign_under_master_key[OF exAccount_built, of "''hello''"] r v
  show ?thesis by blast
qed

lemma WalletAccountBtc_disposed:
  assumes "WalletAccountBtc c s0 seedBuffer path = Inr (s, a)"
  obtains childKey childChainCode where
    "dispose s a =
       (None,
        s0 @ [replicate (length (hmac_sha512 c (fromUtf8 ''Bitcoin seed'') seedBuffer)) 0,
              replicate (length (masterKey c seedBuffer)) 0,
              replicate (length (masterChainCode c seedBuffer)) 0,
              replicate (length (masterKey c seedBuffer)) 0,
              masterChainCode c seedBuffer,
              replicate (length (pointFromScalar c (masterKey c seedBuffer))) 0,
              pointFromScalar c childKey],
        a\<lparr> a_bip32 := None, a_privateKeyBuffer := None, a_chainCodeBuffer := None,
           a_masterKeyAndChainCodeBuffer := None, a_electrumConnected := False \<rparr>)"
    "s = s0 @ [hmac_sha512 c (fromUtf8 ''Bitcoin seed'') seedBuffer,
               masterKey c seedBuffer, masterChainCode c seedBuffer,
               masterKey c seedBuffer, masterChainCode c seedBuffer,
               pointFromScalar c (masterKey c seedBuffer), pointFromScalar c childKey]"
    "a = \<lparr> a_electrumConnected = True,
           a_masterKeyAndChainCodeBuffer = Some (length s0),
           a_privateKeyBuffer = Some (length s0 + 1),
           a_chainCodeBuffer = Some (length s0 + 2),
           a_bip32 = Some \<lparr> node_D = length s0 + 3, node_Q = length s0 + 5,
                            node_chainCode = length s0 + 4 \<rparr>,
           a_path = BIP_84_BTC_DERIVATION_PATH_PREFIX @ ''/'' @ path,
           a_address = p2wpkhAddress c (pointFromScalar c childKey),
           a_keyPair = \<lparr> publicKey = length s0 + 6, privateKey = length s0 + 1 \<rparr> \<rparr>"
proof -
  from assms obtain childKey childChainCode where
    s: "s = s0 @ [hmac_sha512 c (fromUtf8 ''Bitcoin seed'') seedBuffer,
               masterKey c seedBuffer, masterChainCode c seedBuffer,
               masterKey c seedBuffer, masterChainCode c seedBuffer,
               pointFromScalar c (masterKey c seedBuffer), pointFromScalar c childKey]" and
    a: "a = \<lparr> a_electrumConnected = True,
           a_masterKeyAndChainCodeBuffer = Some (length s0),
           a_privateKeyBuffer = Some (length s0 + 1),
           a_chainCodeBuffer = Some (length s0 + 2),
           a_bip32 = Some \<lparr> node_D = length s0 + 3, node_Q = length s0 + 5,
                            node_chainCode = length s0 + 4 \<rparr>,
           a_path = BIP_84_BTC_DERIVATION_PATH_PREFIX @ ''/'' @ path,
           a_address = p2wpkhAddress c (pointFromScalar c childKey),
           a_keyPair = \<lparr> publicKey = length s0 + 6, privateKey = length s0 + 1 \<rparr> \<rparr>"
    by (rule WalletAccountBtc_built)
  have "dispose s a =
       (None,
        s0 @ [replicate (length (hmac_sha512 c (fromUtf8 ''Bitcoin seed'') seedBuffer)) 0,
              replicate (length (masterKey c seedBuffer)) 0,
              replicate (length (masterChainCode c seedBuffer)) 0,
              replicate (length (masterKey c seedBuffer)) 0,
              masterChainCode c seedBuffer,
              replicate (length (pointFromScalar c (masterKey c seedBuffer))) 0,
              pointFromScalar c childKey],
        a\<lparr> a_bip32 := None, a_privateKeyBuffer := None, a_chainCodeBuffer := None,
           a_masterKeyAndChainCodeBuffer := None, a_electrumConnected := False \<rparr>)"
    by (simp add: a s dispose_def memzero_def Let_def nth_append list_update_append)
  with s a that show ?thesis by blast
qed

text \<open>
  Claim C3, as the code has it. The account keeps no disposed flag. After a
  \<open>dispose()\<close> that returned, \<open>sign\<close> and \<open>verify\<close> fail with the TypeError of reading the
  \<open>null\<close> node, \<open>sendTransaction\<close> and \<open>quoteSendTransaction\<close> fail too, and
  \<open>getAddress\<close> and the path still answer with what the account held before. The key
  pair is still handed out, with the same two buffers: for an account the constructor
  built, the public key holds its bytes and the private key, which was the master key,
  holds zero bytes only.
\<close>

theorem after_dispose:
  assumes "dispose s a = (None, s', a')"
  shows "sign c s' a' message = Inl TypeError \<and>
         verify c s' a' message signature = Inl TypeError \<and>
         (\<exists>e. sendTransaction lib c ec s' a' to amount = Inl e) \<and>
         (\<exists>e. quoteSendTransaction lib c ec s' a' to amount = Inl e) \<and>
         getAddress a' = Inr (a_address a) \<and>
         a_path a' = a_path a \<and>
         a_keyPair a' = a_keyPair a \<and>
         (WalletAccountBtc c s0 seedBuffer path = Inr (s, a) \<longrightarrow>
            s' ! publicKey (a_keyPair a') = s ! publicKey (a_keyPair a) \<and>
            s ! privateKey (a_keyPair a) = masterKey c seedBuffer \<and>
            s' ! privateKey (a_keyPair a') = replicate (length (masterKey c seedBuffer)) 0)"
proof -
  from assms have a': "a' = a\<lparr> a_bip32 := None, a_privateKeyBuffer := None,
              a_chainCodeBuffer := None, a_masterKeyAndChainCodeBuffer := None,
              a_electrumConnected := False \<rparr>"
    by (rule dispose_done)
  then have n: "a_bip32 a' = None" by simp
  from getTransaction_needs_node[OF n] obtain e where
    g: "getTransaction lib c ec s' a' to amount = Inl e" by blast
  have "sendTransaction lib c ec s' a' to amount = Inl e"
    and "quoteSendTransaction lib c ec s' a' to amount = Inl e"
    by (simp_all add: sendTransaction_def quoteSendTransaction_def g)
  moreover have "sign c s' a' message = Inl TypeError"
    and "verify c s' a' message signature = Inl TypeError"
    by (simp_all add: sign_def verify_def n)
  moreover have "getAddress a' = Inr (a_address a)" "a_path a' = a_path a"
    "a_keyPair a' = a_keyPair a"
    by (simp_all add: getAddress_def a')
  moreover have "s' ! publicKey (a_keyPair a') = s ! publicKey (a_keyPair a) \<and>
            s ! privateKey (a_keyPair a) = masterKey c seedBuffer \<and>
            s' ! privateKey (a_keyPair a') = replicate (length (masterKey c seedBuffer)) 0"
    if built: "WalletAccountBtc c s0 seedBuffer path = Inr (s, a)"
  proof -
    from built obtain childKey childChainCode where
      d: "dispose s a =
       (None,
        s0 @ [replicate (length (hmac_sha512 c (fromUtf8 ''Bitcoin seed'') seedBuffer)) 0,
              replicate (length (masterKey c seedBuffer)) 0,
              replicate (length (masterChainCode c seedBuffer)) 0,
              replicate (length (masterKey c seedBuffer)) 0,
              masterChainCode c seedBuffer,
              replicate (length (pointFromScalar c (masterKey c seedBuffer))) 0,
              pointFromScalar c childKey],
        a\<lparr> a_bip32 := None, a_privateKeyBuffer := None, a_chainCodeBuffer := None,
           a_masterKeyAndChainCodeBuffer := None, a_electrumConnected := False \<rparr>)" and
      s: "s = s0 @ [hmac_sha512 c (fromUtf8 ''Bitcoin seed'') seedBuffer,
               masterKey c seedBuffer, masterChainCode c seedBuffer,
               masterKey c seedBuffer, masterChainCode c seedBuffer,
               pointFromScalar c (masterKey c seedBuffer), pointFromScalar c childKey]" and
      k: "a_keyPair a = \<lparr> publicKey = length s0 + 6, privateKey = length s0 + 1 \<rparr>"
      by (rule WalletAccountBtc_disposed) simp
    from d assms have s': "s' =
        s0 @ [replicate (length (hmac_sha512 c (fromUtf8 ''Bitcoin seed'') seedBuffer)) 0,
              replicate (length (masterKey c seedBuffer)) 0,
              replicate (length (masterChainCode c seedBuffer)) 0,
              replicate (length (masterKey c seedBuffer)) 0,
              masterChainCode c seedBuffer,
              replicate (length (pointFromScalar c (masterKey c seedBuffer))) 0,
              pointFromScalar c childKey]"
      by simp
    show ?thesis
      by (simp add: a' k) (simp add: s s' nth_append)
  qed
  ultimately show ?thesis by blast
qed

lemma exDisposed_eval: "dispose exStore exAccount = (None, exZeroed, exDisposed)"
  by (simp add: dispose_def memzero_def exStore_def exAccount_def exZeroed_def
      exDisposed_def Let_def)

theorem after_dispose_witness:
  "sign exCrypto exZeroed exDisposed ''hello'' = Inl TypeError \<and>
   verify exCrypto exZeroed exDisposed ''hello'' ''sig'' = Inl TypeError \<and>
   (\<exists>e. sendTransaction exLib exCrypto exWallet exZeroed exDisposed ''you'' 10000 = Inl e) \<and>
   (\<exists>e. quoteSendTransaction exLib exCrypto exWallet exZeroed exDisposed ''you'' 10000 = Inl e) \<and>
   getAddress exDisposed = Inr (a_address exAccount) \<and>
   a_path exDisposed = a_path exAccount \<and>
   a_keyPair exDisposed = a_keyPair exAccount \<and>
   exZeroed ! publicKey (a_keyPair exDisposed) = exStore ! publicKey (a_keyPair exAccount) \<and>
   exStore ! privateKey (a_keyPair exAccount) = masterKey exCrypto exSeed \<and>
   exZeroed ! privateKey (a_keyPair exDisposed) =
     replicate (length (masterKey exCrypto exSeed)) 0"
  using after_dispose[OF exDisposed_eval, of exCrypto "''hello''" "''sig''" exLib exWallet
      "''you''" 10000 "[]" exSeed "''0'/0/0''"] exAccount_built
  by blast

text \<open>
  The claim as the specification words it fails on the example account: after
  \<open>dispose()\<close>, \<open>getAddress\<close> still returns the address, and a second \<open>dispose()\<close>
  throws.
\<close>

theorem after_dispose_counterexample:
  "dispose exStore exAccount = (None, exZeroed, exDisposed) \<and>
   getAddress exDisposed = Inr ''me'' \<and>
   dispose exZeroed exDisposed = (Some TypeError, exZeroed, exDisposed)"
  by (simp add: exDisposed_eval) (simp add: getAddress_def dispose_def exDisposed_def)

text \<open>
  Claim C9, against the code. For an account as the constructor builds it, \<open>dispose()\<close>
  returns, and the buffers it passes to \<open>sodium_memzero\<close> hold zero bytes only, at their
  old length: the master private key, the chain code, the buffer of master key and chain
  code, the private key of the key pair, and \<open>__D\<close> and \<open>__Q\<close> of the BIP-32 node; the
  memoized address and the path are what they were. But the node was made from copies
  (\<open>Buffer.from\<close>) of key and chain code, and of the two copies \<open>dispose\<close> wipes the key
  alone: the node's chain code, a secret buffer of the account as much as the other,
  holds the chain code of the seed before and after, and the account merely lets go of
  the node.
\<close>

theorem dispose_leaves_node_chainCode:
  assumes "WalletAccountBtc c s0 seedBuffer path = Inr (s, a)"
  shows "\<exists>s' a' rMk rPk rCc n.
           dispose s a = (None, s', a') \<and>
           a_masterKeyAndChainCodeBuffer a = Some rMk \<and>
           a_privateKeyBuffer a = Some rPk \<and>
           a_chainCodeBuffer a = Some rCc \<and>
           a_bip32 a = Some n \<and> a_bip32 a' = None \<and>
           (\<forall>r \<in> {rMk, rPk, rCc, privateKey (a_keyPair a), node_D n, node_Q n}.
              s' ! r = replicate (length (s ! r)) 0) \<and>
           a_address a' = a_address a \<and> a_path a' = a_path a \<and>
           s ! rCc = masterChainCode c seedBuffer \<and>
           s ! node_chainCode n = masterChainCode c seedBuffer \<and>
           s' ! node_chainCode n = masterChainCode c seedBuffer"
proof -
  from assms obtain childKey childChainCode where
    d: "dispose s a =
       (None,
        s0 @ [replicate (length (hmac_sha512 c (fromUtf8 ''Bitcoin seed'') seedBuffer)) 0,
              replicate (length (masterKey c seedBuffer)) 0,
              replicate (length (masterChainCode c seedBuffer)) 0,
              replicate (length (masterKey c seedBuffer)) 0,
              masterChainCode c seedBuffer,
              replicate (length (pointFromScalar c (masterKey c seedBuffer))) 0,
              pointFromScalar c childKey],
        a\<lparr> a_bip32 := None, a_privateKeyBuffer := None, a_chainCodeBuffer := None,
           a_masterKeyAndChainCodeBuffer := None, a_electrumConnected := False \<rparr>)" and
    s: "s = s0 @ [hmac_sha512 c (fromUtf8 ''Bitcoin seed'') seedBuffer,
               masterKey c seedBuffer, masterChainCode c seedBuffer,
               masterKey c seedBuffer, masterChainCode c seedBuffer,
               pointFromScalar c (masterKey c seedBuffer), pointFromScalar c childKey]" and
    a: "a = \<lparr> a_electrumConnected = True,
           a_masterKeyAndChainCodeBuffer = Some (length s0),
           a_privateKeyBuffer = Some (length s0 + 1),
           a_chainCodeBuffer = Some (length s0 + 2),
           a_bip32 = Some \<lparr> node_D = length s0 + 3, node_Q = length s0 + 5,
                            node_chainCode = length s0 + 4 \<rparr>,
           a_path = BIP_84_BTC_DERIVATION_PATH_PREFIX @ ''/'' @ path,
           a_address = p2wpkhAddress c (pointFromScalar c childKey),
           a_keyPair = \<lparr> publicKey = length s0 + 6, privateKey = length s0 + 1 \<rparr> \<rparr>"
    by (rule WalletAccountBtc_disposed)
  show ?thesis
    unfolding d
    by (simp add: a) (simp add: s nth_append)
qed

theorem dispose_leaves_node_chainCode_witness:
  "\<exists>n. dispose exStore exAccount = (None, exZeroed, exDisposed) \<and>
       a_bip32 exAccount = Some n \<and> a_bip32 exDisposed = None \<and>
       exZeroed ! node_D n = replicate 32 0 \<and>
       exStore ! node_chainCode n = replicate 32 9 \<and>
       exZeroed ! node_chainCode n = replicate 32 9"
proof -
  have cc: "masterChainCode exCrypto exSeed = replicate 32 9"
    by (simp add: masterChainCode_def exCrypto_def exSeed_def)
  have len: "length (exStore ! 3) = 32" by (simp add: exStore_def)
  from dispose_leaves_node_chainCode[OF exAccount_built] obtain s' a' rMk rPk rCc n where
    d: "dispose exStore exAccount = (None, s', a')" and
    n: "a_bip32 exAccount = Some n" "a_bip32 a' = None" and
    z: "\<forall>r \<in> {rMk, rPk, rCc, privateKey (a_keyPair exAccount), node_D n, node_Q n}.
              s' ! r = replicate (length (exStore ! r)) 0" and
    k: "exStore ! node_chainCode n = masterChainCode exCrypto exSeed"
       "s' ! node_chainCode n = masterChainCode exCrypto exSeed"
    by blast
  from d have e: "s' = exZeroed" "a' = exDisposed" by (simp_all add: exDisposed_eval)
  from n(1) have nd: "node_D n = 3" by (auto simp: exAccount_def)
  from z have "s' ! node_D n = replicate (length (exStore ! node_D n)) 0" by simp
  with nd len e have "exZeroed ! node_D n = replicate 32 0" by simp
  with d n k e cc show ?thesis by auto
qed

text \<open>
  Claim C10. The key pair of an account holds the master private key of the seed (the
  first 32 bytes of the HMAC) next to the public key of the child derived at the
  account's path. So whenever that child's private key is another key than the master's,
  both valid, and the library maps distinct valid private keys to distinct public keys,
  the private key of the pair is not the one its public key belongs to.
\<close>

theorem keyPair_mismatch:
  assumes "WalletAccountBtc c s0 seedBuffer path = Inr (s, a)"
  shows "\<exists>childKey childChainCode.
           derivePath c (masterKey c seedBuffer, masterChainCode c seedBuffer) (a_path a) =
             Some (childKey, childChainCode) \<and>
           s ! privateKey (a_keyPair a) = masterKey c seedBuffer \<and>
           s ! publicKey (a_keyPair a) = pointFromScalar c childKey \<and>
           (inj_on (pointFromScalar c) {k. isPrivate c k} \<and> isPrivate c childKey \<and>
            childKey \<noteq> masterKey c seedBuffer \<longrightarrow>
              pointFromScalar c (s ! privateKey (a_keyPair a)) \<noteq> s ! publicKey (a_keyPair a))"
proof -
  from assms obtain childKey childChainCode where
    m: "isPrivate c (masterKey c seedBuffer)" and
    d: "derivePath c (masterKey c seedBuffer, masterChainCode c seedBuffer)
       (BIP_84_BTC_DERIVATION_PATH_PREFIX @ ''/'' @ path) = Some (childKey, childChainCode)" and
    s: "s = s0 @ [hmac_sha512 c (fromUtf8 ''Bitcoin seed'') seedBuffer,
               masterKey c seedBuffer, masterChainCode c seedBuffer,
               masterKey c seedBuffer, masterChainCode c seedBuffer,
               pointFromScalar c (masterKey c seedBuffer), pointFromScalar c childKey]" and
    a: "a = \<lparr> a_electrumConnected = True,
           a_masterKeyAndChainCodeBuffer = Some (length s0),
           a_privateKeyBuffer = Some (length s0 + 1),
           a_chainCodeBuffer = Some (length s0 + 2),
           a_bip32 = Some \<lparr> node_D = length s0 + 3, node_Q = length s0 + 5,
                            node_chainCode = length s0 + 4 \<rparr>,
           a_path = BIP_84_BTC_DERIVATION_PATH_PREFIX @ ''/'' @ path,
           a_address = p2wpkhAddress c (pointFromScalar c childKey),
           a_keyPair = \<lparr> publicKey = length s0 + 6, privateKey = length s0 + 1 \<rparr> \<rparr>"
    by (rule WalletAccountBtc_built)
  have priv: "s ! privateKey (a_keyPair a) = masterKey c seedBuffer"
    and pub: "s ! publicKey (a_keyPair a) = pointFromScalar c childKey"
    by (simp_all add: a s nth_append)
  have "pointFromScalar c (masterKey c seedBuffer) \<noteq> pointFromScalar c childKey"
    if "inj_on (pointFromScalar c) {k. isPrivate c k}" "isPrivate c childKey"
      "childKey \<noteq> masterKey c seedBuffer"
    using that m by (auto dest: inj_onD)
  with d priv pub show ?thesis by (auto simp: a)
qed

theorem keyPair_mismatch_witness:
  "exStore ! privateKey (a_keyPair exAccount) = masterKey exCrypto exSeed \<and>
   exStore ! publicKey (a_keyPair exAccount) = 2 # replicate 32 19 \<and>
   pointFromScalar exCrypto (exStore ! privateKey (a_keyPair exAccount)) \<noteq>
     exStore ! publicKey (a_keyPair exAccount)"
proof -
  have inj: "inj_on (pointFromScalar exCrypto) {k. isPrivate exCrypto k}"
    by (simp add: exCrypto_def inj_on_def)
  have mk: "masterKey exCrypto exSeed = replicate 32 4"
    by (simp add: masterKey_def exCrypto_def exSeed_def)
  have dp: "derivePath exCrypto (masterKey exCrypto exSeed, masterChainCode exCrypto exSeed)
              (a_path exAccount) = Some (replicate 32 19, replicate 32 9)"
    unfolding mk
    by (simp add: masterChainCode_def exCrypto_def exSeed_def exAccount_def
        BIP_84_BTC_DERIVATION_PATH_PREFIX_def)
  have valid: "isPrivate exCrypto (replicate 32 19)"
    by (simp add: exCrypto_def)
  have other: "replicate 32 19 \<noteq> masterKey exCrypto exSeed"
    unfolding mk by simp
  from keyPair_mismatch[OF exAccount_built] dp inj valid other
  show ?thesis by (auto simp: exStore_def exAccount_def)
qed


section \<open>Transfer history of the script-hash account: the same direction and fee\<close>

lemma getInputValue_eq:
  "getInputValue ec xs tot = tot + sum_list (map (\<lambda>i. inputValue (resolvePrev ec i)) xs)"
  by (induction xs arbitrary: tot)
    (simp_all add: resolvePrev_def inputValue_def split: option.splits)

lemma isOutgoingTx_fetched:
  "isOutgoingTx ec p2wpkh address xs \<Longrightarrow>
   \<exists>i\<in>set xs. \<exists>p. ec_getTransaction ec (in_hash i) = Some p \<and>
      in_index i < length (outs p) \<and>
      p2wpkh (out_script (outs p ! in_index i)) = Some address"
  by (induction xs)
    (auto simp: outAt_def isAddressMatch_def split: option.splits if_splits)

lemma emitEntries_records:
  "emitEntries p2wpkh address direction limit item og fee (length pre) rest acc = Inr rs \<Longrightarrow>
   r \<in> set rs \<Longrightarrow>
   r \<in> set acc \<or> emittedEntry p2wpkh address (h_tx_hash item) og fee (pre @ rest) r"
proof (induction rest arbitrary: pre acc)
  case Nil
  then show ?case by simp
next
  case (Cons out rest)
  from Cons.prems(1) obtain addr where addr: "p2wpkh (out_script out) = Some addr"
    by (auto split: option.splits)
  let ?d = "directionType (isAddressMatch (Some addr) address) og"
  have step: "r \<in> set acc' \<or> emittedEntry p2wpkh address (h_tx_hash item) og fee (pre @ out # rest) r"
    if "emitEntries p2wpkh address direction limit item og fee (Suc (length pre)) rest acc' = Inr rs"
    for acc'
    using Cons.IH[of "pre @ [out]" acc'] that Cons.prems(2) by simp
  consider (skip) "skipped direction ?d"
    | (full) "\<not> skipped direction ?d" "limit \<le> int (length acc)"
    | (push) "\<not> skipped direction ?d" "\<not> limit \<le> int (length acc)"
    by blast
  then show ?case
  proof cases
    case skip
    with Cons.prems(1) addr
    have "emitEntries p2wpkh address direction limit item og fee (Suc (length pre)) rest acc = Inr rs"
      by (auto simp: skipped_def split: option.splits if_splits)
    then show ?thesis by (rule step)
  next
    case full
    with Cons.prems(1) addr have "rs = acc"
      by (auto simp: skipped_def split: option.splits if_splits)
    with Cons.prems(2) show ?thesis by simp
  next
    case push
    let ?new = "\<lparr> t_txid = h_tx_hash item, t_height = h_height item,
                t_value = out_value out, t_vout = length pre,
                t_direction = the ?d,
                t_recipient = Some addr, t_fee = fee, t_address = address \<rparr>"
    from push Cons.prems(1) addr
    have "emitEntries p2wpkh address direction limit item og fee (Suc (length pre)) rest
            (acc @ [?new]) = Inr rs"
      by (auto simp: skipped_def split: option.splits if_splits)
    from step[OF this]
    have "r \<in> set acc \<or> r = ?new \<or>
          emittedEntry p2wpkh address (h_tx_hash item) og fee (pre @ out # rest) r"
      by auto
    moreover have "emittedEntry p2wpkh address (h_tx_hash item) og fee (pre @ out # rest) ?new"
      using push(1) addr
      by (auto simp: emittedEntry_def skipped_def isAddressMatch_def split: option.splits)
    ultimately show ?thesis by auto
  qed
qed

lemma historyEntries_records:
  "historyEntries ec p2wpkh address direction limit items acc = Inr rs \<Longrightarrow> r \<in> set rs \<Longrightarrow>
   r \<in> set acc \<or>
   (\<exists>t. ec_getTransaction ec (t_txid r) = Some t \<and>
        emittedEntry p2wpkh address (t_txid r) (isOutgoingTx ec p2wpkh address (ins t))
          (feeOf (totalInputOf ec t) t) (outs t) r)"
proof (induction items arbitrary: acc)
  case Nil
  then show ?case by simp
next
  case (Cons item rest)
  show ?case
  proof (cases "int (length acc) \<ge> limit")
    case True
    with Cons.prems show ?thesis by simp
  next
    case False
    with Cons.prems(1) obtain t acc1 where
      t: "ec_getTransaction ec (h_tx_hash item) = Some t" and
      e: "emitEntries p2wpkh address direction limit item (isOutgoingTx ec p2wpkh address (ins t))
            (feeOf (totalInputOf ec t) t) 0 (outs t) acc = Inr acc1" and
      h: "historyEntries ec p2wpkh address direction limit rest acc1 = Inr rs"
      by (auto simp: Let_def getInputValue_eq totalInputOf_def split: option.splits sum.splits)
    from Cons.IH[OF h Cons.prems(2)]
    consider "r \<in> set acc1"
      | "\<exists>t. ec_getTransaction ec (t_txid r) = Some t \<and>
           emittedEntry p2wpkh address (t_txid r) (isOutgoingTx ec p2wpkh address (ins t))
             (feeOf (totalInputOf ec t) t) (outs t) r"
      by blast
    then show ?thesis
    proof cases
      case 1
      from emitEntries_records[of p2wpkh address direction limit item _ _ "[]" "outs t" acc acc1 r]
        e 1
      have "r \<in> set acc \<or> emittedEntry p2wpkh address (h_tx_hash item)
              (isOutgoingTx ec p2wpkh address (ins t)) (feeOf (totalInputOf ec t) t) (outs t) r"
        by simp
      then show ?thesis
      proof
        assume "r \<in> set acc" then show ?thesis by simp
      next
        assume em: "emittedEntry p2wpkh address (h_tx_hash item)
              (isOutgoingTx ec p2wpkh address (ins t)) (feeOf (totalInputOf ec t) t) (outs t) r"
        then have "t_txid r = h_tx_hash item" by (simp add: emittedEntry_def)
        with em t show ?thesis by auto
      qed
    next
      case 2
      then show ?thesis by simp
    qed
  qed
qed

text \<open>Direction and fee for the script-hash account: the direction of a record says
  whether its output decodes to the account's address, and its fee is computed from the
  inputs that could be fetched.\<close>

lemma getTransfers_scripthash_direction:
  assumes "getTransfers_scripthash ec p2wpkh address options = Inr rs" and "r \<in> set rs"
  shows "(t_direction r = ''incoming'' \<or> t_direction r = ''outgoing'') \<and>
         t_direction r \<noteq> ''change'' \<and>
         (\<exists>t. ec_getTransaction ec (t_txid r) = Some t \<and>
              t_vout r < length (outs t) \<and>
              ((p2wpkh (out_script (outs t ! t_vout r)) = Some address) =
                 (t_direction r = ''incoming'')))"
proof -
  from assms(1) obtain history where
    "historyEntries ec p2wpkh address (directionOf options) (limitOf options)
       (slice_from (skipOf options) history) [] = Inr rs"
    by (auto simp: getTransfers_scripthash_def split: option.splits)
  from historyEntries_records[OF this assms(2)] obtain t where
    t: "ec_getTransaction ec (t_txid r) = Some t" and
    e: "emittedEntry p2wpkh address (t_txid r) (isOutgoingTx ec p2wpkh address (ins t))
          (feeOf (totalInputOf ec t) t) (outs t) r"
    by auto
  from e have v: "t_vout r < length (outs t)"
    and d: "directionType (p2wpkh (out_script (outs t ! t_vout r)) = Some address)
              (isOutgoingTx ec p2wpkh address (ins t)) = Some (t_direction r)"
    and nc: "t_direction r \<noteq> ''change''"
    by (simp_all add: emittedEntry_def)
  from d nc have "t_direction r = ''incoming'' \<or> t_direction r = ''outgoing''"
    and "(p2wpkh (out_script (outs t ! t_vout r)) = Some address) =
           (t_direction r = ''incoming'')"
    by (auto simp: directionType_def split: if_splits)
  with nc t v show ?thesis by blast
qed

lemma getTransfers_scripthash_fee:
  assumes "getTransfers_scripthash ec p2wpkh address options = Inr rs" and "r \<in> set rs"
  shows "\<exists>t. ec_getTransaction ec (t_txid r) = Some t \<and>
             t_fee r =
               (if totalInputOf ec t > 0 then Some (totalInputOf ec t - totalOutputOf t)
                else None) \<and>
             (t_direction r = ''outgoing'' \<longrightarrow>
                (\<exists>i\<in>set (ins t). \<exists>p. ec_getTransaction ec (in_hash i) = Some p \<and>
                   in_index i < length (outs p) \<and>
                   p2wpkh (out_script (outs p ! in_index i)) = Some address))"
proof -
  from assms(1) obtain history where
    "historyEntries ec p2wpkh address (directionOf options) (limitOf options)
       (slice_from (skipOf options) history) [] = Inr rs"
    by (auto simp: getTransfers_scripthash_def split: option.splits)
  from historyEntries_records[OF this assms(2)] obtain t where
    t: "ec_getTransaction ec (t_txid r) = Some t" and
    e: "emittedEntry p2wpkh address (t_txid r) (isOutgoingTx ec p2wpkh address (ins t))
          (feeOf (totalInputOf ec t) t) (outs t) r"
    by auto
  from e have fee: "t_fee r =
      (if totalInputOf ec t > 0 then Some (totalInputOf ec t - totalOutputOf t) else None)"
    by (simp add: emittedEntry_def feeOf_eq)
  have "\<exists>i\<in>set (ins t). \<exists>p. ec_getTransaction ec (in_hash i) = Some p \<and>
          in_index i < length (outs p) \<and>
          p2wpkh (out_script (outs p ! in_index i)) = Some address"
    if "t_direction r = ''outgoing''"
  proof -
    from e that have "isOutgoingTx ec p2wpkh address (ins t)"
      by (auto simp: emittedEntry_def directionType_def split: if_splits)
    then show ?thesis by (rule isOutgoingTx_fetched)
  qed
  with t fee show ?thesis by blast
qed

lemma getTransfers_scripthash_example:
  "getTransfers_scripthash exElectrum (fromOutputScript exCodec) ''me'' noOptions =
     Inr [exIncoming, exOutgoing, exPartial]"
  by (simp add: getTransfers_scripthash_def exElectrum_def exCodec_def noOptions_def
      exHistory_def exIncoming_def exOutgoing_def exPartial_def directionOf_def limitOf_def
      skipOf_def slice_from_def exTxs_def outAt_def directionType_def feeOf_def
      isAddressMatch_def Let_def)


section \<open>Further facts: the fee the read-only account quotes\<close>

lemma estimateLoop_fee:
  "estimateLoop lib js fromScript toScript value feeRate rest selected tot fee = Inr (T, F) \<Longrightarrow>
   rest \<noteq> [] \<Longrightarrow>
   \<exists>n. 0 < n \<and> n \<le> length rest \<and>
       T = tot + sum_list (map utxo_value (take n rest)) \<and>
       F = max (ceilTimes js (virtualSize lib
                  (provisionalPsbt fromScript toScript value (selected @ take n rest) T))
                feeRate) 141"
proof (induction rest arbitrary: selected tot fee)
  case Nil
  then show ?case by simp
next
  case (Cons u rest)
  let ?tot1 = "tot + utxo_value u"
  let ?p = "provisionalPsbt fromScript toScript value (selected @ [u]) ?tot1"
  let ?fee1 = "max (ceilTimes js (virtualSize lib ?p) feeRate) 141"
  from Cons.prems(1) have ex: "extractTransaction ?p = Inr ?p"
    by (auto simp: Let_def dest: extractTransaction_Inr split: sum.splits)
  have one: ?case if "(T, F) = (?tot1, ?fee1)"
  proof -
    from that have "T = ?tot1" "F = ?fee1" by simp_all
    then show ?thesis by (intro exI[of _ 1]) simp
  qed
  show ?case
  proof (cases "?tot1 \<ge> value + ?fee1 \<or> rest = []")
    case True
    with Cons.prems(1) ex have "(T, F) = (?tot1, ?fee1)"
      by (auto simp: Let_def split: if_splits)
    then show ?thesis by (rule one)
  next
    case False
    with Cons.prems(1) ex
    have rec: "estimateLoop lib js fromScript toScript value feeRate rest (selected @ [u])
                 ?tot1 ?fee1 = Inr (T, F)"
      by (simp add: Let_def)
    from False have "rest \<noteq> []" by simp
    from Cons.IH[OF rec this] obtain n where
      n: "0 < n" "n \<le> length rest"
        "T = ?tot1 + sum_list (map utxo_value (take n rest))"
        "F = max (ceilTimes js (virtualSize lib
                 (provisionalPsbt fromScript toScript value ((selected @ [u]) @ take n rest) T))
               feeRate) 141"
      by blast
    then show ?thesis by (intro exI[of _ "Suc n"]) simp
  qed
qed

text \<open>The fee the read-only account quotes follows the same rule, in the arithmetic of
  JavaScript numbers: it is the greater of 141 and \<open>Math.ceil(vsize * feeRate)\<close> for
  the provisional transaction over the first \<open>n\<close> unspent outputs, the rate raised to at
  least 1, and those outputs cover amount and fee.\<close>

lemma estimateFee_fee:
  assumes "estimateFee lib js ec fromAddress to value = Inr fee"
  shows "\<exists>rate utxos fromScript toScript n.
           ec_getFeeEstimateInSatsPerVb ec = Some rate \<and>
           ec_getUnspent ec fromAddress = Some utxos \<and>
           toOutputScript lib fromAddress = Some fromScript \<and>
           toOutputScript lib to = Some toScript \<and>
           0 < n \<and> n \<le> length utxos \<and>
           fee = max (ceilTimes js (virtualSize lib
                        (provisionalPsbt fromScript toScript value (take n utxos)
                           (sum_list (map utxo_value (take n utxos)))))
                      (max (toNumber js rate) 1)) 141 \<and>
           value + fee \<le> sum_list (map utxo_value (take n utxos))"
proof -
  from assms obtain rate utxos fromScript toScript T where
    r: "ec_getFeeEstimateInSatsPerVb ec = Some rate" and
    u: "ec_getUnspent ec fromAddress = Some utxos" "utxos \<noteq> []" and
    f: "toOutputScript lib fromAddress = Some fromScript" and
    t: "toOutputScript lib to = Some toScript" and
    l: "estimateLoop lib js fromScript toScript value (max (toNumber js rate) 1) utxos [] 0 0 =
          Inr (T, fee)" and
    ge: "\<not> T < value + fee"
    by (auto simp: estimateFee_def Let_def split: option.splits if_splits prod.splits sum.splits)
  from estimateLoop_fee[OF l u(2)] obtain n where
    "0 < n" "n \<le> length utxos" "T = sum_list (map utxo_value (take n utxos))"
    "fee = max (ceilTimes js (virtualSize lib
                 (provisionalPsbt fromScript toScript value (take n utxos) T))
               (max (toNumber js rate) 1)) 141"
    by auto
  with ge r u(1) f t show ?thesis by (intro exI[of _ rate] exI[of _ utxos] exI[of _ fromScript]
      exI[of _ toScript] exI[of _ n]) simp
qed


end
